theory Spec2Isabelle
  imports Main "HOL-Library.Word"
begin

section \<open>The service worker, \<^verbatim>\<open>static/sw.js\<close>\<close>

subsection \<open>Requests, responses and the cache storage of the platform\<close>

text \<open>
  The worker reads three things of a request: the parsed URL (\<^verbatim>\<open>new URL(request.url)\<close>, of
  which it uses \<^verbatim>\<open>origin\<close> and \<^verbatim>\<open>pathname\<close>), \<^verbatim>\<open>request.method\<close> and \<^verbatim>\<open>request.mode\<close>.
  A response is its status line, its headers and its body (bytes; a body given as a
  JavaScript string is encoded in UTF-8). \<^verbatim>\<open>response.ok\<close> is the platform's test for a
  status in the range 200 to 299, and \<^verbatim>\<open>response.clone()\<close> is a copy with the same content.
\<close>

record url =
  origin :: string
  pathname :: string
  search :: string

record request =
  req_url :: url
  req_method :: string
  mode :: string

record response =
  status :: nat
  statusText :: string
  headers :: "(string \<times> string) list"
  body :: string

definition ok :: "response \<Rightarrow> bool" where
  "ok r = (200 \<le> status r \<and> status r \<le> 299)"

text \<open>
  The \<^verbatim>\<open>Vary\<close> header of a response: header names compare without regard to case, a
  value is a list of fields separated by commas, and a field is read without the spaces and
  tabs around it.
\<close>

definition ascii_lower :: "char \<Rightarrow> char" where
  "ascii_lower c =
     (case map_of (zip ''ABCDEFGHIJKLMNOPQRSTUVWXYZ'' ''abcdefghijklmnopqrstuvwxyz'') c of
        Some l \<Rightarrow> l
      | None \<Rightarrow> c)"

fun split_commas :: "string \<Rightarrow> string list" where
  "split_commas [] = [[]]"
| "split_commas (c # cs) =
     (if c = CHR '','' then [] # split_commas cs
      else (case split_commas cs of
              [] \<Rightarrow> [[c]]
            | f # fs \<Rightarrow> (c # f) # fs))"

definition http_space :: "char \<Rightarrow> bool" where
  "http_space c = (c = CHR '' '' \<or> c = CHR 0x09)"

definition trim :: "string \<Rightarrow> string" where
  "trim f = rev (dropWhile http_space (rev (dropWhile http_space f)))"

definition vary_star :: "response \<Rightarrow> bool" where
  "vary_star r =
     list_ex (\<lambda>(n, v). map ascii_lower n = ''vary'' \<and>
                       list_ex (\<lambda>f. trim f = ''*'') (split_commas v))
       (headers r)"

text \<open>
  A cache is a store keyed by request (method and URL); the cache storage \<^verbatim>\<open>caches\<close> is
  the sequence of named caches in creation order. \<^verbatim>\<open>caches.match\<close> searches the caches in
  that order, \<^verbatim>\<open>caches.open\<close> creates a missing cache, empty, at the end, and
  \<^verbatim>\<open>caches.delete\<close> removes a cache by name.

  \<^verbatim>\<open>cache.put(request, response)\<close> returns a promise. The platform rejects it with a
  \<^verbatim>\<open>TypeError\<close>, and stores nothing, when the method of the request is not GET, when the
  status of the response is 206, or when a field of its \<^verbatim>\<open>Vary\<close> header is \<^verbatim>\<open>*\<close>; otherwise
  it stores the entry, replacing an older one for the same key. (The platform also rejects
  a request whose URL is not of the scheme http or https and a response whose body has been
  read; the worker handles requests of its own origin only, an http or https origin, and
  puts a fresh clone.) The other calls to the cache storage do not fail.
\<close>

datatype js_error = NetworkError | TypeError

definition put_rejected :: "request \<Rightarrow> response \<Rightarrow> bool" where
  "put_rejected req resp = (req_method req \<noteq> ''GET'' \<or> status resp = 206 \<or> vary_star resp)"

type_synonym request_key = "string \<times> url"

definition request_key :: "request \<Rightarrow> request_key" where
  "request_key req = (req_method req, req_url req)"

type_synonym cache = "request_key \<rightharpoonup> response"

type_synonym cache_storage = "(string \<times> cache) list"

text \<open>
  Every call that the worker makes to the platform is recorded, in order, and so is a
  promise that is rejected with nobody awaiting it or catching the rejection.
\<close>

datatype event =
    EvFetch request
  | EvMatch request
  | EvOpen string
  | EvPut string request response
  | EvKeys
  | EvDelete string
  | EvWarn string
  | EvLog string
  | EvSkipWaiting
  | EvClientsClaim
  | EvUnhandledRejection js_error

record world =
  caches :: cache_storage
  trace :: "event list"

text \<open>The network is a parameter: \<open>None\<close> is a \<^verbatim>\<open>fetch\<close> that throws.\<close>

type_synonym network = "request \<Rightarrow> response option"

definition emit :: "event \<Rightarrow> world \<Rightarrow> world" where
  "emit e w = w\<lparr>trace := trace w @ [e]\<rparr>"

definition fetch :: "network \<Rightarrow> request \<Rightarrow> world \<Rightarrow> response option \<times> world" where
  "fetch net req w = (net req, emit (EvFetch req) w)"

fun storage_match :: "cache_storage \<Rightarrow> request \<Rightarrow> response option" where
  "storage_match [] req = None"
| "storage_match ((name, c) # cs) req =
     (case c (request_key req) of
        Some r \<Rightarrow> Some r
      | None \<Rightarrow> storage_match cs req)"

definition caches_match :: "request \<Rightarrow> world \<Rightarrow> response option \<times> world" where
  "caches_match req w = (storage_match (caches w) req, emit (EvMatch req) w)"

definition storage_open :: "string \<Rightarrow> cache_storage \<Rightarrow> cache_storage" where
  "storage_open name cs =
     (if name \<in> set (map fst cs) then cs else cs @ [(name, Map.empty)])"

definition caches_open :: "string \<Rightarrow> world \<Rightarrow> world" where
  "caches_open name w = emit (EvOpen name) (w\<lparr>caches := storage_open name (caches w)\<rparr>)"

definition storage_put :: "string \<Rightarrow> request \<Rightarrow> response \<Rightarrow> cache_storage \<Rightarrow> cache_storage" where
  "storage_put name req resp cs =
     map (\<lambda>(n, c). if n = name then (n, c(request_key req \<mapsto> resp)) else (n, c)) cs"

definition cache_put ::
  "string \<Rightarrow> request \<Rightarrow> response \<Rightarrow> world \<Rightarrow> (js_error + unit) \<times> world" where
  "cache_put name req resp w =
     (if put_rejected req resp then (Inl TypeError, emit (EvPut name req resp) w)
      else (Inr (),
            emit (EvPut name req resp)
              (w\<lparr>caches := storage_put name req resp (caches w)\<rparr>)))"

text \<open>
  A call whose promise the worker drops: the statement \<^verbatim>\<open>cache.put(...);\<close> of the
  strategies, not awaited and without a \<^verbatim>\<open>catch\<close>. The model completes the call before the
  next event.
\<close>

definition not_awaited :: "(world \<Rightarrow> (js_error + 'a) \<times> world) \<Rightarrow> world \<Rightarrow> world" where
  "not_awaited p w =
     (case p w of
        (Inl e, w1) \<Rightarrow> emit (EvUnhandledRejection e) w1
      | (Inr x, w1) \<Rightarrow> w1)"

definition storage_delete :: "string \<Rightarrow> cache_storage \<Rightarrow> cache_storage" where
  "storage_delete name cs = filter (\<lambda>(n, c). n \<noteq> name) cs"

definition caches_delete :: "string \<Rightarrow> world \<Rightarrow> world" where
  "caches_delete name w = emit (EvDelete name) (w\<lparr>caches := storage_delete name (caches w)\<rparr>)"

definition caches_keys :: "world \<Rightarrow> string list \<times> world" where
  "caches_keys w = (map fst (caches w), emit EvKeys w)"

text \<open>What a named cache holds for a request, and the writes recorded in a trace.\<close>

definition stored_in :: "string \<Rightarrow> cache_storage \<Rightarrow> request \<Rightarrow> response option" where
  "stored_in name cs req =
     (case map_of cs name of
        Some c \<Rightarrow> c (request_key req)
      | None \<Rightarrow> None)"

fun is_write :: "event \<Rightarrow> bool" where
  "is_write (EvPut name req resp) = True"
| "is_write (EvOpen name) = True"
| "is_write (EvDelete name) = True"
| "is_write e = False"

fun is_put :: "event \<Rightarrow> bool" where
  "is_put (EvPut name req resp) = True"
| "is_put e = False"

fun is_fetch :: "event \<Rightarrow> bool" where
  "is_fetch (EvFetch req) = True"
| "is_fetch e = False"

subsection \<open>Constants of the worker\<close>

definition CACHE_NAME :: string where
  "CACHE_NAME = ''restaurant-manager-v1''"

definition PRECACHE_URLS :: "string list" where
  "PRECACHE_URLS =
     [''/'',
      ''/tables'',
      ''/menu'',
      ''/orders'',
      ''/static/css/style.css'',
      ''/static/js/app.js'',
      ''/static/manifest.json'',
      ''/static/icons/icon-192.png'',
      ''/static/icons/icon-512.png'']"

definition OFFLINE_HTML :: string where
  \<open>OFFLINE_HTML = ''<!DOCTYPE html>
<html lang="en">
<head>
  <meta charset="UTF-8">
  <meta name="viewport" content="width=device-width, initial-scale=1.0">
  <title>Offline - Restaurant Manager</title>
  <style>
    * { margin: 0; padding: 0; box-sizing: border-box; }
    body {
      font-family: -apple-system, BlinkMacSystemFont, "Segoe UI", Roboto, sans-serif;
      background: #f5f6fa;
      color: #2c3e50;
      display: flex;
      justify-content: center;
      align-items: center;
      min-height: 100vh;
      text-align: center;
      padding: 2rem;
    }
    .offline-container { max-width: 420px; }
    .offline-icon {
      font-size: 4rem;
      margin-bottom: 1.5rem;
      opacity: 0.6;
    }
    h1 { font-size: 1.6rem; margin-bottom: 0.75rem; }
    p { color: #95a5a6; line-height: 1.6; margin-bottom: 1.5rem; }
    button {
      padding: 0.7rem 2rem;
      background: #FF6B35;
      color: #fff;
      border: none;
      border-radius: 6px;
      font-size: 1rem;
      cursor: pointer;
      transition: opacity 0.2s;
    }
    button:hover { opacity: 0.85; }
  </style>
</head>
<body>
  <div class="offline-container">
    <div class="offline-icon">&#x1F50C;</div>
    <h1>You're Offline</h1>
    <p>
      It looks like you've lost your internet connection.
      Some features may be unavailable until you reconnect.
    </p>
    <button onclick="window.location.reload()">Try Again</button>
  </div>
</body>
</html>''\<close>

text \<open>
  The three synthetic responses. The body of the first holds an em dash (U+2014), three
  bytes in UTF-8; the body of the second is the value of
  \<^verbatim>\<open>JSON.stringify({ error: 'You are offline and no cached data is available.' })\<close>.
\<close>

definition OFFLINE_ASSET_RESPONSE :: response where
  "OFFLINE_ASSET_RESPONSE =
     \<lparr>status = 503,
      statusText = ''Service Unavailable'',
      headers = [(''Content-Type'', ''text/plain'')],
      body = ''Offline '' @ [CHR 0xE2, CHR 0x80, CHR 0x94] @ '' asset unavailable''\<rparr>"

definition OFFLINE_JSON_RESPONSE :: response where
  \<open>OFFLINE_JSON_RESPONSE =
     \<lparr>status = 503,
      statusText = ''Service Unavailable'',
      headers = [(''Content-Type'', ''application/json'')],
      body = ''{"error":"You are offline and no cached data is available."}''\<rparr>\<close>

definition OFFLINE_HTML_RESPONSE :: response where
  "OFFLINE_HTML_RESPONSE =
     \<lparr>status = 503,
      statusText = ''Service Unavailable'',
      headers = [(''Content-Type'', ''text/html'')],
      body = OFFLINE_HTML\<rparr>"

subsection \<open>The strategies\<close>

definition cacheFirst :: "network \<Rightarrow> request \<Rightarrow> world \<Rightarrow> response \<times> world" where
  "cacheFirst net req w =
     (case caches_match req w of
        (Some cachedResponse, w1) \<Rightarrow> (cachedResponse, w1)
      | (None, w1) \<Rightarrow>
          (case fetch net req w1 of
             (Some networkResponse, w2) \<Rightarrow>
               (if ok networkResponse
                then (networkResponse,
                      not_awaited (cache_put CACHE_NAME req networkResponse)
                        (caches_open CACHE_NAME w2))
                else (networkResponse, w2))
           | (None, w2) \<Rightarrow> (OFFLINE_ASSET_RESPONSE, w2)))"

definition networkFirst :: "network \<Rightarrow> request \<Rightarrow> world \<Rightarrow> response \<times> world" where
  "networkFirst net req w =
     (case fetch net req w of
        (Some networkResponse, w1) \<Rightarrow>
          (if req_method req = ''GET'' \<and> ok networkResponse
           then (networkResponse,
                 not_awaited (cache_put CACHE_NAME req networkResponse)
                   (caches_open CACHE_NAME w1))
           else (networkResponse, w1))
      | (None, w1) \<Rightarrow>
          (case caches_match req w1 of
             (Some cachedResponse, w2) \<Rightarrow> (cachedResponse, w2)
           | (None, w2) \<Rightarrow> (OFFLINE_JSON_RESPONSE, w2)))"

definition networkFirstNavigation :: "network \<Rightarrow> request \<Rightarrow> world \<Rightarrow> response \<times> world" where
  "networkFirstNavigation net req w =
     (case fetch net req w of
        (Some networkResponse, w1) \<Rightarrow>
          (if ok networkResponse
           then (networkResponse,
                 not_awaited (cache_put CACHE_NAME req networkResponse)
                   (caches_open CACHE_NAME w1))
           else (networkResponse, w1))
      | (None, w1) \<Rightarrow>
          (case caches_match req w1 of
             (Some cachedResponse, w2) \<Rightarrow> (cachedResponse, w2)
           | (None, w2) \<Rightarrow> (OFFLINE_HTML_RESPONSE, w2)))"

subsection \<open>The fetch handler\<close>

definition starts_with :: "string \<Rightarrow> string \<Rightarrow> bool" where
  "starts_with s p = (take (length p) s = p)"

definition ends_with :: "string \<Rightarrow> string \<Rightarrow> bool" where
  "ends_with s p = (length p \<le> length s \<and> drop (length s - length p) s = p)"

text \<open>
  The regular expression of \<^verbatim>\<open>isStaticAsset\<close> is anchored at the end only: a dot, one of
  the alternatives (\<^verbatim>\<open>woff2?\<close> is \<^verbatim>\<open>woff\<close> or \<^verbatim>\<open>woff2\<close>), the end of the path.
\<close>

definition STATIC_EXTENSIONS :: "string list" where
  "STATIC_EXTENSIONS =
     [''css'', ''js'', ''png'', ''jpg'', ''jpeg'', ''gif'', ''svg'', ''ico'',
      ''woff'', ''woff2'', ''ttf'', ''eot'']"

definition isStaticAsset :: "string \<Rightarrow> bool" where
  "isStaticAsset p = list_ex (\<lambda>e. ends_with p (''.'' @ e)) STATIC_EXTENSIONS"

text \<open>
  A handler that returns without calling \<^verbatim>\<open>event.respondWith\<close> leaves the request to the
  browser, which sends it to the network as if there were no worker.
\<close>

datatype handled = NotHandled | RespondWith response

definition respondWith :: "response \<times> world \<Rightarrow> handled \<times> world" where
  "respondWith rw = (RespondWith (fst rw), snd rw)"

definition fetch_handler :: "string \<Rightarrow> network \<Rightarrow> request \<Rightarrow> world \<Rightarrow> handled \<times> world" where
  "fetch_handler self_origin net req w =
     (if origin (req_url req) \<noteq> self_origin then (NotHandled, w)
      else if starts_with (pathname (req_url req)) ''/api/''
        then respondWith (networkFirst net req w)
      else if isStaticAsset (pathname (req_url req))
        then respondWith (cacheFirst net req w)
      else if mode req = ''navigate''
        then respondWith (networkFirstNavigation net req w)
      else respondWith (networkFirst net req w))"

subsection \<open>Promise chains of the install and activate handlers\<close>

text \<open>
  A promise is a computation on the world that settles as fulfilled (\<open>Inr\<close>) or rejected
  (\<open>Inl\<close>). \<^verbatim>\<open>p.then(f)\<close> runs \<open>f\<close> on a fulfilled value and passes a rejection through,
  \<^verbatim>\<open>p.catch(h)\<close> runs \<open>h\<close> on a rejection, \<^verbatim>\<open>Promise.allSettled\<close> waits for every promise
  and is fulfilled with the list of the outcomes, \<^verbatim>\<open>Promise.all\<close> is rejected with the
  first rejection. The handlers start the promises of a list in the order of the list; the
  model also settles them in that order.
\<close>

type_synonym 'a promise = "world \<Rightarrow> (js_error + 'a) \<times> world"

definition then_p :: "'a promise \<Rightarrow> ('a \<Rightarrow> 'b promise) \<Rightarrow> 'b promise" where
  "then_p p f w =
     (case p w of
        (Inl e, w1) \<Rightarrow> (Inl e, w1)
      | (Inr x, w1) \<Rightarrow> f x w1)"

definition catch_p :: "'a promise \<Rightarrow> (js_error \<Rightarrow> 'a promise) \<Rightarrow> 'a promise" where
  "catch_p p h w =
     (case p w of
        (Inl e, w1) \<Rightarrow> h e w1
      | (Inr x, w1) \<Rightarrow> (Inr x, w1))"

fun settle_each :: "'a promise list \<Rightarrow> world \<Rightarrow> (js_error + 'a) list \<times> world" where
  "settle_each [] w = ([], w)"
| "settle_each (p # ps) w =
     (case p w of (r, w1) \<Rightarrow>
        (case settle_each ps w1 of (rs, w2) \<Rightarrow> (r # rs, w2)))"

definition Promise_allSettled :: "'a promise list \<Rightarrow> (js_error + 'a) list promise" where
  "Promise_allSettled ps w = (case settle_each ps w of (rs, w1) \<Rightarrow> (Inr rs, w1))"

fun first_rejection :: "(js_error + 'a) list \<Rightarrow> js_error + 'a list" where
  "first_rejection [] = Inr []"
| "first_rejection (Inl e # rs) = Inl e"
| "first_rejection (Inr x # rs) =
     (case first_rejection rs of
        Inl e \<Rightarrow> Inl e
      | Inr xs \<Rightarrow> Inr (x # xs))"

definition Promise_all :: "'a promise list \<Rightarrow> 'a list promise" where
  "Promise_all ps w = (case settle_each ps w of (rs, w1) \<Rightarrow> (first_rejection rs, w1))"

text \<open>
  The platform calls as promises. \<^verbatim>\<open>cache.add(url)\<close> is the platform's fetch-and-store:
  it requests the URL (a GET of the worker's own origin for the paths of the precache
  list), is rejected with the network error when the fetch throws and with a
  \<^verbatim>\<open>TypeError\<close> when the response is not \<^verbatim>\<open>ok\<close>, has status 206 or has a \<^verbatim>\<open>Vary\<close> field
  \<^verbatim>\<open>*\<close>, and stores the response otherwise.
\<close>

definition add_rejected :: "response \<Rightarrow> bool" where
  "add_rejected r = (\<not> ok r \<or> status r = 206 \<or> vary_star r)"

definition precache_request :: "string \<Rightarrow> string \<Rightarrow> request" where
  "precache_request self_origin u =
     \<lparr>req_url = \<lparr>origin = self_origin, pathname = u, search = []\<rparr>,
      req_method = ''GET'', mode = ''cors''\<rparr>"

definition cache_add :: "string \<Rightarrow> network \<Rightarrow> string \<Rightarrow> string \<Rightarrow> unit promise" where
  "cache_add self_origin net name u w =
     (case fetch net (precache_request self_origin u) w of
        (None, w1) \<Rightarrow> (Inl NetworkError, w1)
      | (Some r, w1) \<Rightarrow>
          (if add_rejected r then (Inl TypeError, w1)
           else cache_put name (precache_request self_origin u) r w1))"

definition caches_open_p :: "string \<Rightarrow> string promise" where
  "caches_open_p name w = (Inr name, caches_open name w)"

definition caches_keys_p :: "string list promise" where
  "caches_keys_p w = (case caches_keys w of (names, w1) \<Rightarrow> (Inr names, w1))"

definition caches_delete_p :: "string \<Rightarrow> bool promise" where
  "caches_delete_p name w = (Inr (name \<in> set (map fst (caches w))), caches_delete name w)"

definition console_warn :: "string \<Rightarrow> unit promise" where
  "console_warn msg w = (Inr (), emit (EvWarn msg) w)"

definition console_log :: "string \<Rightarrow> unit promise" where
  "console_log msg w = (Inr (), emit (EvLog msg) w)"

definition skipWaiting :: "unit promise" where
  "skipWaiting w = (Inr (), emit EvSkipWaiting w)"

definition clients_claim :: "unit promise" where
  "clients_claim w = (Inr (), emit EvClientsClaim w)"

subsection \<open>The install and activate handlers\<close>

definition install :: "string \<Rightarrow> network \<Rightarrow> unit promise" where
  "install self_origin net =
     then_p
       (then_p (caches_open_p CACHE_NAME)
          (\<lambda>cache.
             Promise_allSettled
               (map (\<lambda>u.
                       catch_p (cache_add self_origin net cache u)
                         (\<lambda>err. console_warn (''[SW] Failed to pre-cache: '' @ u)))
                  PRECACHE_URLS)))
       (\<lambda>settled. skipWaiting)"

definition activate :: "unit promise" where
  "activate =
     then_p
       (then_p caches_keys_p
          (\<lambda>cacheNames.
             Promise_all
               (map (\<lambda>name.
                       then_p (console_log (''[SW] Deleting old cache: '' @ name))
                         (\<lambda>logged. caches_delete_p name))
                  (filter (\<lambda>name. name \<noteq> CACHE_NAME) cacheNames))))
       (\<lambda>deleted. clients_claim)"

subsection \<open>The classification of requests, in the words of the specification\<close>

text \<open>
  The specification names four classes of same-origin requests and gives each a
  strategy. The extension of a path is what follows its last dot.
\<close>

datatype route_class = ApiCall | StaticAsset | Navigation | Other

datatype strategy = NetworkFirst | CacheFirst | NetworkFirstOfflinePage

definition spec_extension :: "string \<Rightarrow> string option" where
  "spec_extension p =
     (if CHR ''.'' \<in> set p
      then Some (rev (takeWhile (\<lambda>c. c \<noteq> CHR ''.'') (rev p)))
      else None)"

definition spec_classify :: "request \<Rightarrow> route_class" where
  "spec_classify req =
     (if starts_with (pathname (req_url req)) ''/api/'' then ApiCall
      else if (case spec_extension (pathname (req_url req)) of
                 Some e \<Rightarrow> e \<in> set STATIC_EXTENSIONS
               | None \<Rightarrow> False) then StaticAsset
      else if mode req = ''navigate'' then Navigation
      else Other)"

fun spec_strategy :: "route_class \<Rightarrow> strategy" where
  "spec_strategy ApiCall = NetworkFirst"
| "spec_strategy StaticAsset = CacheFirst"
| "spec_strategy Navigation = NetworkFirstOfflinePage"
| "spec_strategy Other = NetworkFirst"

fun run_strategy :: "strategy \<Rightarrow> network \<Rightarrow> request \<Rightarrow> world \<Rightarrow> response \<times> world" where
  "run_strategy NetworkFirst = networkFirst"
| "run_strategy CacheFirst = cacheFirst"
| "run_strategy NetworkFirstOfflinePage = networkFirstNavigation"

subsection \<open>Example requests, responses and worlds\<close>

definition example_origin :: string where
  "example_origin = ''https://restaurant.example''"

definition example_request :: "string \<Rightarrow> string \<Rightarrow> string \<Rightarrow> request" where
  "example_request m p md =
     \<lparr>req_url = \<lparr>origin = example_origin, pathname = p, search = []\<rparr>,
      req_method = m, mode = md\<rparr>"

definition api_orders_get :: request where
  "api_orders_get = example_request ''GET'' ''/api/orders'' ''cors''"

definition app_js_get :: request where
  "app_js_get = example_request ''GET'' ''/static/js/app.js'' ''no-cors''"

definition orders_page_get :: request where
  "orders_page_get = example_request ''GET'' ''/orders'' ''navigate''"


definition foreign_get :: request where
  "foreign_get =
     \<lparr>req_url = \<lparr>origin = ''https://cdn.example'', pathname = ''/lib.js'', search = []\<rparr>,
      req_method = ''GET'', mode = ''no-cors''\<rparr>"

definition response_200 :: response where
  "response_200 =
     \<lparr>status = 200, statusText = ''OK'',
      headers = [(''Content-Type'', ''application/json'')], body = ''[]''\<rparr>"

definition response_206 :: response where
  "response_206 =
     \<lparr>status = 206, statusText = ''Partial Content'',
      headers = [(''Content-Range'', ''bytes 0-1/2''), (''Content-Type'', ''application/json'')],
      body = ''[]''\<rparr>"

definition response_404 :: response where
  "response_404 =
     \<lparr>status = 404, statusText = ''Not Found'',
      headers = [(''Content-Type'', ''text/plain'')], body = ''not found''\<rparr>"

definition empty_world :: world where
  "empty_world = \<lparr>caches = [], trace = []\<rparr>"


definition old_world :: world where
  "old_world =
     \<lparr>caches = [(''restaurant-manager-v0'', [request_key app_js_get \<mapsto> response_200])],
      trace = []\<rparr>"

definition online :: network where
  "online req = Some response_200"

definition partial_content :: network where
  "partial_content req = Some response_206"

definition offline :: network where
  "offline req = None"

text \<open>A network on which only the two icons of the precache list are missing.\<close>

definition icons_missing :: network where
  "icons_missing req =
     (if starts_with (pathname (req_url req)) ''/static/icons/'' then Some response_404
      else Some response_200)"

text \<open>The messages of \<^verbatim>\<open>console.warn\<close> in a trace.\<close>

fun warnings :: "event list \<Rightarrow> string list" where
  "warnings [] = []"
| "warnings (EvWarn msg # t) = msg # warnings t"
| "warnings (e # t) = warnings t"

subsection \<open>One entry of the precache list, one deletion\<close>

text \<open>
  The function that the install handler maps over \<^verbatim>\<open>PRECACHE_URLS\<close> and the one that the
  activate handler maps over the old cache names, and when an entry of the precache list
  fails: its fetch throws or \<^verbatim>\<open>cache.add\<close> rejects its response.
\<close>

definition precache_step :: "string \<Rightarrow> network \<Rightarrow> string \<Rightarrow> unit promise" where
  "precache_step self_origin net u =
     catch_p (cache_add self_origin net CACHE_NAME u)
       (\<lambda>err. console_warn (''[SW] Failed to pre-cache: '' @ u))"

definition precache_fails :: "string \<Rightarrow> network \<Rightarrow> string \<Rightarrow> bool" where
  "precache_fails self_origin net u =
     (case net (precache_request self_origin u) of
        None \<Rightarrow> True
      | Some r \<Rightarrow> add_rejected r)"

definition delete_step :: "string \<Rightarrow> bool promise" where
  "delete_step name =
     then_p (console_log (''[SW] Deleting old cache: '' @ name)) (\<lambda>logged. caches_delete_p name)"

section \<open>The API helper of the pages, \<^verbatim>\<open>static/js/app.js\<close>\<close>

subsection \<open>JavaScript values\<close>

text \<open>
  \<^verbatim>\<open>response.json()\<close> yields a JSON value: \<^verbatim>\<open>null\<close>, a boolean, a number (an IEEE 754
  double, kept as its 64 bits), a string, an array or an object (its own properties, with
  distinct names). \<^verbatim>\<open>undefined\<close> is \<open>None\<close> of \<open>jsval option\<close>.
\<close>

datatype jsval =
    JNull
  | JBool bool
  | JNum "64 word"
  | JStr string
  | JArr "jsval list"
  | JObj "(string \<times> jsval) list"

text \<open>A number is falsy when it is \<open>+0\<close>, \<open>-0\<close> or a NaN.\<close>

definition number_falsy :: "64 word \<Rightarrow> bool" where
  "number_falsy d =
     (and d 0x7FFFFFFFFFFFFFFF = 0 \<or> 0x7FF0000000000000 < and d 0x7FFFFFFFFFFFFFFF)"

fun truthy :: "jsval option \<Rightarrow> bool" where
  "truthy None = False"
| "truthy (Some JNull) = False"
| "truthy (Some (JBool b)) = b"
| "truthy (Some (JNum d)) = (\<not> number_falsy d)"
| "truthy (Some (JStr s)) = (s \<noteq> [])"
| "truthy (Some (JArr vs)) = True"
| "truthy (Some (JObj kvs)) = True"

text \<open>
  What the helper throws: the error of a failed \<^verbatim>\<open>fetch\<close>, passed on as it is; the
  \<^verbatim>\<open>TypeError\<close> of reading a property of \<^verbatim>\<open>null\<close>; the \<^verbatim>\<open>TypeError\<close> of converting to a
  string a value that has no string form; \<^verbatim>\<open>new Error(message)\<close>, kept with the argument
  of the constructor (which the constructor converts to a string; a string argument is the
  message itself).
\<close>

datatype api_error =
    FetchFailed string
  | NullPropertyRead
  | NotConvertible
  | Error "jsval option"

text \<open>
  Reading the property \<^verbatim>\<open>error\<close> or \<^verbatim>\<open>message\<close> of a value: \<^verbatim>\<open>null\<close> throws, an object
  gives its own property of that name or \<^verbatim>\<open>undefined\<close>, every other JSON value gives
  \<^verbatim>\<open>undefined\<close> (no built-in property of booleans, numbers, strings or arrays has one of
  these two names).
\<close>

fun own_prop :: "jsval \<Rightarrow> string \<Rightarrow> jsval option" where
  "own_prop (JObj kvs) k = map_of kvs k"
| "own_prop v k = None"

fun get_prop :: "jsval \<Rightarrow> string \<Rightarrow> api_error + jsval option" where
  "get_prop JNull k = Inl NullPropertyRead"
| "get_prop v k = Inr (own_prop v k)"

text \<open>
  Converting a value to a string, as the DOM does with the text of a toast and the
  constructor of \<^verbatim>\<open>Error\<close> with its argument. Of the JSON values, an object converts through
  its \<^verbatim>\<open>toString\<close>; a member of that name, which is never a function, hides the inherited
  one, and the conversion then throws. An array converts by joining the converted
  elements. Every other value, and \<^verbatim>\<open>undefined\<close>, has a string form.
\<close>

fun unprintable :: "jsval \<Rightarrow> bool" where
  "unprintable (JObj kvs) = (''toString'' \<in> set (map fst kvs))"
| "unprintable (JArr vs) = list_ex unprintable vs"
| "unprintable v = False"

definition convertible :: "jsval option \<Rightarrow> bool" where
  "convertible message =
     (case message of
        None \<Rightarrow> True
      | Some v \<Rightarrow> \<not> unprintable v)"

subsection \<open>The helper\<close>

record fetch_options =
  opt_method :: string
  opt_headers :: "(string \<times> string) list"
  opt_body :: "string option"

type_synonym page_fetch = "string \<Rightarrow> fetch_options \<Rightarrow> api_error + response"

type_synonym toast = "jsval option \<times> string"

fun show_nat :: "nat \<Rightarrow> string" where
  "show_nat n =
     (if n < 10 then [''0123456789'' ! n]
      else show_nat (n div 10) @ [''0123456789'' ! (n mod 10)])"

declare show_nat.simps [simp del]

text \<open>\<^verbatim>\<open>data.error || data.message || 'Something went wrong.'\<close>, evaluated from the left.\<close>

definition error_message :: "jsval \<Rightarrow> api_error + jsval option" where
  "error_message data =
     (case get_prop data ''error'' of
        Inl thrown \<Rightarrow> Inl thrown
      | Inr e \<Rightarrow>
          (if truthy e then Inr e
           else (case get_prop data ''message'' of
                   Inl thrown \<Rightarrow> Inl thrown
                 | Inr m \<Rightarrow>
                     (if truthy m then Inr m
                      else Inr (Some (JStr ''Something went wrong.''))))))"

text \<open>
  \<^verbatim>\<open>showToast(message, type)\<close> puts the message into a text node, which converts it to a
  string: it throws for a message without a string form, before the toast is shown.
  Each of its three calls in the helper is followed by a \<^verbatim>\<open>throw\<close>; when the toast has
  been shown, the message has a string form and \<^verbatim>\<open>new Error(message)\<close> does not throw.
\<close>

definition showToast :: "jsval option \<Rightarrow> string \<Rightarrow> api_error + toast" where
  "showToast message kind =
     (if convertible message then Inr (message, kind) else Inl NotConvertible)"

definition toast_and_throw ::
  "jsval option \<Rightarrow> api_error \<Rightarrow> (api_error + jsval) \<times> toast list" where
  "toast_and_throw message thrown =
     (case showToast message ''error'' of
        Inl conversion \<Rightarrow> (Inl conversion, [])
      | Inr shown \<Rightarrow> (Inl thrown, [shown]))"

text \<open>
  The platform's \<^verbatim>\<open>fetch\<close> of the page, \<^verbatim>\<open>JSON.stringify\<close> and the JSON parser behind
  \<^verbatim>\<open>response.json()\<close> (\<open>None\<close>: the body is not JSON and the call rejects) are parameters.
  The result is what the promise settles with and the toasts shown on the way.
\<close>

definition api ::
  "page_fetch \<Rightarrow> (jsval \<Rightarrow> string) \<Rightarrow> (string \<Rightarrow> jsval option) \<Rightarrow>
   string \<Rightarrow> string \<Rightarrow> jsval option \<Rightarrow> (api_error + jsval) \<times> toast list" where
  "api page_fetch stringify parse_json u m b =
     (let options =
        \<lparr>opt_method = m,
         opt_headers = [(''Content-Type'', ''application/json''), (''Accept'', ''application/json'')],
         opt_body =
           (case b of
              None \<Rightarrow> None
            | Some v \<Rightarrow> if v = JNull then None else Some (stringify v))\<rparr>
      in case page_fetch u options of
           Inl networkError \<Rightarrow>
             toast_and_throw (Some (JStr ''Network error. Please check your connection.''))
               networkError
         | Inr resp \<Rightarrow>
             (case parse_json (body resp) of
                None \<Rightarrow>
                  (if \<not> ok resp
                   then toast_and_throw (Some (JStr ''Something went wrong.''))
                          (Error (Some (JStr (''HTTP '' @ show_nat (status resp) @
                                              '': Non-JSON response''))))
                   else (Inr (JObj []), []))
              | Some data \<Rightarrow>
                  (if \<not> ok resp
                   then (case error_message data of
                           Inl thrown \<Rightarrow> (Inl thrown, [])
                         | Inr message \<Rightarrow> toast_and_throw message (Error message))
                   else (Inr data, []))))"

subsection \<open>Example servers\<close>

definition example_parse :: "string \<Rightarrow> jsval option" where
  \<open>example_parse b =
     (if b = ''{}'' then Some (JObj [])
      else if b = ''{"error":"Table is occupied"}''
        then Some (JObj [(''error'', JStr ''Table is occupied'')])
      else if b = ''[]'' then Some (JArr [])
      else if b = ''null'' then Some JNull
      else None)\<close>

definition example_stringify :: "jsval \<Rightarrow> string" where
  "example_stringify v = ''{}''"

definition server_answers :: "nat \<Rightarrow> string \<Rightarrow> page_fetch" where
  "server_answers code content u options =
     Inr \<lparr>status = code, statusText = [], headers = [], body = content\<rparr>"

section \<open>Properties of the service worker\<close>

subsection \<open>Facts about the platform model\<close>

lemma trace_emit: "trace (emit e w) = trace w @ [e]"
  by (simp add: emit_def)

lemma caches_emit: "caches (emit e w) = caches w"
  by (simp add: emit_def)

lemma storage_open_mem: "name \<in> set (map fst (storage_open name cs))"
  by (simp add: storage_open_def)

lemma names_storage_put: "map fst (storage_put name req r cs) = map fst cs"
  by (induction cs) (auto simp: storage_put_def)

lemma names_storage_open:
  "map fst (storage_open name cs) =
     (if name \<in> set (map fst cs) then map fst cs else map fst cs @ [name])"
  by (simp add: storage_open_def)

lemma map_of_storage_put:
  "map_of (storage_put name' req' r' cs) name =
     (case map_of cs name of
        None \<Rightarrow> None
      | Some c \<Rightarrow> Some (if name = name' then c(request_key req' \<mapsto> r') else c))"
  by (induction cs) (auto simp: storage_put_def)

lemma stored_in_storage_put:
  "stored_in name (storage_put name' req' r' cs) q =
     (if name = name' \<and> name \<in> set (map fst cs) \<and> request_key q = request_key req'
      then Some r' else stored_in name cs q)"
proof (cases "map_of cs name")
  case None
  then have "name \<notin> set (map fst cs)" by (simp add: map_of_eq_None_iff)
  with None show ?thesis by (simp add: stored_in_def map_of_storage_put)
next
  case (Some c)
  then have "name \<in> set (map fst cs)" by (metis map_of_eq_None_iff option.distinct(1) set_map)
  with Some show ?thesis by (simp add: stored_in_def map_of_storage_put)
qed

lemma stored_in_put_open:
  "stored_in name (storage_put name req r (storage_open name cs)) req = Some r"
  using storage_open_mem [of name cs] by (simp add: stored_in_storage_put)

lemma warnings_append: "warnings (t @ u) = warnings t @ warnings u"
  by (induction t rule: warnings.induct) simp_all

lemma stored_in_storage_open: "stored_in name (storage_open n cs) q = stored_in name cs q"
proof (cases "n \<in> set (map fst cs)")
  case True
  then show ?thesis by (simp add: storage_open_def)
next
  case False
  then have "map_of cs n = None" by (simp add: map_of_eq_None_iff)
  then show ?thesis
    by (cases "map_of cs name") (auto simp: stored_in_def storage_open_def map_add_def)
qed

lemma response_200_accepted: "ok response_200" "status response_200 \<noteq> 206"
  "\<not> vary_star response_200"
  by (simp_all add: response_200_def ok_def vary_star_def)

lemma response_206_rejected: "ok response_206" "status response_206 = 206"
  by (simp_all add: response_206_def ok_def)

lemmas platform_defs = fetch_def caches_match_def caches_open_def cache_put_def
  not_awaited_def

subsection \<open>The network-first strategy\<close>

text \<open>
  C1, as stated, fails on a GET that the network answers with status 206: the response is
  \<^verbatim>\<open>ok\<close> and the strategy calls \<^verbatim>\<open>put\<close>, but the platform rejects a partial response and
  the current cache holds nothing for the request afterwards.
\<close>

theorem networkFirst_206_not_stored:
  "req_method api_orders_get = ''GET'' \<and>
   partial_content api_orders_get = Some response_206 \<and>
   ok response_206 \<and>
   fst (networkFirst partial_content api_orders_get empty_world) = response_206 \<and>
   filter is_put (trace (snd (networkFirst partial_content api_orders_get empty_world))) =
     [EvPut CACHE_NAME api_orders_get response_206] \<and>
   stored_in CACHE_NAME (caches (snd (networkFirst partial_content api_orders_get empty_world)))
     api_orders_get = None"
proof -
  have g: "req_method api_orders_get = ''GET''"
    by (simp add: api_orders_get_def example_request_def)
  have n: "partial_content api_orders_get = Some response_206"
    by (simp add: partial_content_def)
  have r: "put_rejected api_orders_get response_206"
    by (simp add: put_rejected_def response_206_rejected)
  show ?thesis
    using g n r response_206_rejected
    by (simp add: networkFirst_def platform_defs trace_emit caches_emit
        stored_in_storage_open)
       (simp add: empty_world_def stored_in_def)
qed

text \<open>
  C1, amended. When the fetch of the network-first strategy succeeds, the strategy
  returns the network's response itself, whatever its status. It calls \<^verbatim>\<open>put\<close> with a copy
  exactly when the method is GET and the response is \<^verbatim>\<open>ok\<close>. The copy is stored in the
  current cache exactly when, in addition, the status is not 206 and no field of the
  \<^verbatim>\<open>Vary\<close> header is \<^verbatim>\<open>*\<close>; otherwise no cache holds anything else than before, and without
  the call to \<^verbatim>\<open>put\<close> the cache storage is as before.
\<close>

theorem networkFirst_network_success:
  assumes "net req = Some networkResponse"
  shows "fst (networkFirst net req w) = networkResponse \<and>
    filter is_put (trace (snd (networkFirst net req w))) =
      filter is_put (trace w) @
      (if req_method req = ''GET'' \<and> ok networkResponse
       then [EvPut CACHE_NAME req networkResponse] else []) \<and>
    (req_method req = ''GET'' \<and> ok networkResponse \<and>
     status networkResponse \<noteq> 206 \<and> \<not> vary_star networkResponse \<longrightarrow>
       stored_in CACHE_NAME (caches (snd (networkFirst net req w))) req =
         Some networkResponse) \<and>
    (\<not> (req_method req = ''GET'' \<and> ok networkResponse \<and>
        status networkResponse \<noteq> 206 \<and> \<not> vary_star networkResponse) \<longrightarrow>
       (\<forall>name q. stored_in name (caches (snd (networkFirst net req w))) q =
                 stored_in name (caches w) q)) \<and>
    (\<not> (req_method req = ''GET'' \<and> ok networkResponse) \<longrightarrow>
       caches (snd (networkFirst net req w)) = caches w)"
  using assms
  by (simp add: networkFirst_def platform_defs put_rejected_def trace_emit caches_emit
      stored_in_put_open stored_in_storage_open)

theorem networkFirst_network_success_witness:
  "online api_orders_get = Some response_200 \<and>
   req_method api_orders_get = ''GET'' \<and> ok response_200 \<and>
   status response_200 \<noteq> 206 \<and> \<not> vary_star response_200 \<and>
   fst (networkFirst online api_orders_get empty_world) = response_200 \<and>
   stored_in CACHE_NAME (caches (snd (networkFirst online api_orders_get empty_world)))
     api_orders_get = Some response_200 \<and>
   filter is_put (trace (snd (networkFirst online api_orders_get empty_world))) =
     [EvPut CACHE_NAME api_orders_get response_200]"
proof -
  have h: "online api_orders_get = Some response_200" by (simp add: online_def)
  have g: "req_method api_orders_get = ''GET''"
    by (simp add: api_orders_get_def example_request_def)
  show ?thesis
    using networkFirst_network_success
        [where net = online and req = api_orders_get and networkResponse = response_200
           and w = empty_world] h g response_200_accepted
    by (simp add: empty_world_def)
qed

text \<open>
  C2. When the fetch of the network-first strategy throws, the strategy returns what
  \<^verbatim>\<open>caches.match\<close> finds for the request and, when it finds nothing, the synthetic response:
  status 503, the JSON text with the one member \<^verbatim>\<open>error\<close> as body, content type
  \<^verbatim>\<open>application/json\<close>. When the current cache is the only one in the storage, what
  \<^verbatim>\<open>caches.match\<close> finds is what that cache holds for the request.
\<close>

theorem networkFirst_network_failure:
  assumes "net req = None"
  shows "fst (networkFirst net req w) =
      (case storage_match (caches w) req of
         Some cachedResponse \<Rightarrow> cachedResponse
       | None \<Rightarrow> OFFLINE_JSON_RESPONSE) \<and>
    (\<forall>c. caches w = [(CACHE_NAME, c)] \<longrightarrow>
       fst (networkFirst net req w) =
         (case c (request_key req) of
            Some cachedResponse \<Rightarrow> cachedResponse
          | None \<Rightarrow> OFFLINE_JSON_RESPONSE)) \<and>
    status OFFLINE_JSON_RESPONSE = 503 \<and>
    body OFFLINE_JSON_RESPONSE =
      ''{'' @ [CHR 0x22] @ ''error'' @ [CHR 0x22] @ '':'' @ [CHR 0x22] @
      ''You are offline and no cached data is available.'' @ [CHR 0x22] @ ''}'' \<and>
    map_of (headers OFFLINE_JSON_RESPONSE) ''Content-Type'' = Some ''application/json''"
  using assms
  by (auto simp: networkFirst_def platform_defs caches_emit OFFLINE_JSON_RESPONSE_def
      split: option.splits)

theorem networkFirst_network_failure_witness:
  "offline api_orders_get = None \<and>
   fst (networkFirst offline api_orders_get empty_world) = OFFLINE_JSON_RESPONSE \<and>
   fst (networkFirst offline api_orders_get
          \<lparr>caches = [(CACHE_NAME, [request_key api_orders_get \<mapsto> response_200])],
           trace = []\<rparr>) = response_200"
proof -
  have h: "offline api_orders_get = None" by (simp add: offline_def)
  show ?thesis
    using networkFirst_network_failure
        [where net = offline and req = api_orders_get and w = empty_world]
      networkFirst_network_failure
        [where net = offline and req = api_orders_get and w =
          "\<lparr>caches = [(CACHE_NAME, [request_key api_orders_get \<mapsto> response_200])],
            trace = []\<rparr>"]
      h
    by (simp add: empty_world_def)
qed

subsection \<open>The cache-first strategy\<close>

text \<open>
  C3, as stated, fails on a request of a static asset that the network answers with
  status 206 when nothing is cached: the response is \<^verbatim>\<open>ok\<close> and the strategy calls \<^verbatim>\<open>put\<close>,
  but the platform rejects a partial response and nothing is stored.
\<close>

theorem cacheFirst_206_not_stored:
  "storage_match (caches empty_world) app_js_get = None \<and>
   partial_content app_js_get = Some response_206 \<and>
   ok response_206 \<and>
   fst (cacheFirst partial_content app_js_get empty_world) = response_206 \<and>
   filter is_put (trace (snd (cacheFirst partial_content app_js_get empty_world))) =
     [EvPut CACHE_NAME app_js_get response_206] \<and>
   stored_in CACHE_NAME (caches (snd (cacheFirst partial_content app_js_get empty_world)))
     app_js_get = None"
proof -
  have m: "storage_match (caches empty_world) app_js_get = None"
    by (simp add: empty_world_def)
  have n: "partial_content app_js_get = Some response_206"
    by (simp add: partial_content_def)
  have r: "put_rejected app_js_get response_206"
    by (simp add: put_rejected_def response_206_rejected)
  show ?thesis
    using m n r response_206_rejected
    by (simp add: cacheFirst_def platform_defs trace_emit caches_emit
        stored_in_storage_open)
       (simp add: empty_world_def stored_in_def)
qed

text \<open>
  C3, amended. The cache-first strategy returns a cached response when \<^verbatim>\<open>caches.match\<close>
  finds one, and then issues no fetch and no write. When nothing is cached it fetches once
  and returns the network's response; it calls \<^verbatim>\<open>put\<close> with a copy exactly when the
  response is \<^verbatim>\<open>ok\<close>, and the copy is stored in the current cache exactly when, in
  addition, the method is GET, the status is not 206 and no field of the \<^verbatim>\<open>Vary\<close> header
  is \<^verbatim>\<open>*\<close>; otherwise no cache holds anything else than before. When nothing is cached and
  the fetch throws, it returns the synthetic response: status 503, the plain text
  \<^verbatim>\<open>Offline\<close>, em dash, \<^verbatim>\<open>asset unavailable\<close> as body, content type \<^verbatim>\<open>text/plain\<close>.
\<close>

theorem cacheFirst_cases:
  "(\<forall>cachedResponse. storage_match (caches w) req = Some cachedResponse \<longrightarrow>
      fst (cacheFirst net req w) = cachedResponse \<and>
      caches (snd (cacheFirst net req w)) = caches w \<and>
      filter is_fetch (trace (snd (cacheFirst net req w))) = filter is_fetch (trace w) \<and>
      filter is_write (trace (snd (cacheFirst net req w))) = filter is_write (trace w)) \<and>
   (\<forall>networkResponse.
      storage_match (caches w) req = None \<and> net req = Some networkResponse \<longrightarrow>
      fst (cacheFirst net req w) = networkResponse \<and>
      filter is_fetch (trace (snd (cacheFirst net req w))) =
        filter is_fetch (trace w) @ [EvFetch req] \<and>
      filter is_put (trace (snd (cacheFirst net req w))) =
        filter is_put (trace w) @
        (if ok networkResponse then [EvPut CACHE_NAME req networkResponse] else []) \<and>
      (ok networkResponse \<and> req_method req = ''GET'' \<and>
       status networkResponse \<noteq> 206 \<and> \<not> vary_star networkResponse \<longrightarrow>
         stored_in CACHE_NAME (caches (snd (cacheFirst net req w))) req =
           Some networkResponse) \<and>
      (\<not> (ok networkResponse \<and> req_method req = ''GET'' \<and>
          status networkResponse \<noteq> 206 \<and> \<not> vary_star networkResponse) \<longrightarrow>
         (\<forall>name q. stored_in name (caches (snd (cacheFirst net req w))) q =
                   stored_in name (caches w) q)) \<and>
      (\<not> ok networkResponse \<longrightarrow> caches (snd (cacheFirst net req w)) = caches w)) \<and>
   (storage_match (caches w) req = None \<and> net req = None \<longrightarrow>
      fst (cacheFirst net req w) = OFFLINE_ASSET_RESPONSE) \<and>
   status OFFLINE_ASSET_RESPONSE = 503 \<and>
   body OFFLINE_ASSET_RESPONSE =
     ''Offline '' @ [CHR 0xE2, CHR 0x80, CHR 0x94] @ '' asset unavailable'' \<and>
   map_of (headers OFFLINE_ASSET_RESPONSE) ''Content-Type'' = Some ''text/plain''"
  by (simp add: cacheFirst_def platform_defs put_rejected_def trace_emit caches_emit
      stored_in_put_open stored_in_storage_open OFFLINE_ASSET_RESPONSE_def)

theorem cacheFirst_cases_witness:
  "storage_match (caches old_world) app_js_get = Some response_200 \<and>
   fst (cacheFirst offline app_js_get old_world) = response_200 \<and>
   trace (snd (cacheFirst offline app_js_get old_world)) = [EvMatch app_js_get] \<and>
   storage_match (caches empty_world) app_js_get = None \<and>
   online app_js_get = Some response_200 \<and> ok response_200 \<and>
   req_method app_js_get = ''GET'' \<and> status response_200 \<noteq> 206 \<and>
   \<not> vary_star response_200 \<and>
   fst (cacheFirst online app_js_get empty_world) = response_200 \<and>
   stored_in CACHE_NAME (caches (snd (cacheFirst online app_js_get empty_world))) app_js_get =
     Some response_200 \<and>
   offline app_js_get = None \<and>
   fst (cacheFirst offline app_js_get empty_world) = OFFLINE_ASSET_RESPONSE"
proof -
  have hit: "storage_match (caches old_world) app_js_get = Some response_200"
    by (simp add: old_world_def)
  have miss: "storage_match (caches empty_world) app_js_get = None"
    by (simp add: empty_world_def)
  have net: "online app_js_get = Some response_200" "offline app_js_get = None"
    by (simp_all add: online_def offline_def)
  have g: "req_method app_js_get = ''GET''"
    by (simp add: app_js_get_def example_request_def)
  have tr: "trace (snd (cacheFirst offline app_js_get old_world)) = [EvMatch app_js_get]"
    using hit by (simp add: cacheFirst_def caches_match_def trace_emit old_world_def)
  show ?thesis
    using cacheFirst_cases [of old_world app_js_get offline]
      cacheFirst_cases [of empty_world app_js_get online]
      cacheFirst_cases [of empty_world app_js_get offline]
      hit miss net g tr response_200_accepted
    by simp
qed

subsection \<open>The error path\<close>

text \<open>
  C9. When the fetch throws, none of the three strategies writes: the cache storage after
  the strategy is the one before it, and the trace has gained no \<^verbatim>\<open>open\<close>, \<^verbatim>\<open>put\<close> or
  \<^verbatim>\<open>delete\<close>.
\<close>

theorem error_path_no_write:
  assumes "net req = None"
  shows "caches (snd (cacheFirst net req w)) = caches w \<and>
    filter is_write (trace (snd (cacheFirst net req w))) = filter is_write (trace w) \<and>
    caches (snd (networkFirst net req w)) = caches w \<and>
    filter is_write (trace (snd (networkFirst net req w))) = filter is_write (trace w) \<and>
    caches (snd (networkFirstNavigation net req w)) = caches w \<and>
    filter is_write (trace (snd (networkFirstNavigation net req w))) = filter is_write (trace w)"
  using assms
  by (simp add: cacheFirst_def networkFirst_def networkFirstNavigation_def platform_defs
      trace_emit caches_emit split: option.splits)

theorem error_path_no_write_witness:
  "offline orders_page_get = None \<and>
   caches (snd (cacheFirst offline orders_page_get old_world)) = caches old_world \<and>
   caches (snd (networkFirst offline orders_page_get old_world)) = caches old_world \<and>
   caches (snd (networkFirstNavigation offline orders_page_get old_world)) = caches old_world \<and>
   filter is_write (trace (snd (networkFirstNavigation offline orders_page_get old_world))) = []"
proof -
  have h: "offline orders_page_get = None" by (simp add: offline_def)
  show ?thesis
    using error_path_no_write
        [where net = offline and req = orders_page_get and w = old_world] h
    by (simp add: old_world_def)
qed

subsection \<open>The fetch handler\<close>

lemma ends_with_iff: "ends_with s p \<longleftrightarrow> (\<exists>q. s = q @ p)"
proof
  assume "ends_with s p"
  then have "s = take (length s - length p) s @ p"
    by (metis append_take_drop_id ends_with_def)
  then show "\<exists>q. s = q @ p" ..
next
  assume "\<exists>q. s = q @ p"
  then show "ends_with s p" by (auto simp: ends_with_def)
qed

text \<open>
  A path ends with a dot and \<open>e\<close>, for \<open>e\<close> without a dot, exactly when \<open>e\<close> is what
  follows the last dot of the path.
\<close>

lemma ends_with_dot_ext:
  assumes "CHR ''.'' \<notin> set e"
  shows "ends_with p (''.'' @ e) \<longleftrightarrow> spec_extension p = Some e"
proof
  assume "ends_with p (''.'' @ e)"
  then obtain q where p: "p = q @ ''.'' @ e" by (auto simp: ends_with_iff)
  have "\<forall>c \<in> set (rev e). c \<noteq> CHR ''.''" using assms by auto
  then have e: "takeWhile (\<lambda>c. c \<noteq> CHR ''.'') (rev e) = rev e"
    by (simp only: takeWhile_eq_all_conv)
  have "takeWhile (\<lambda>c. c \<noteq> CHR ''.'') (rev e @ CHR ''.'' # rev q) =
      takeWhile (\<lambda>c. c \<noteq> CHR ''.'') (rev e)"
    by (rule takeWhile_tail) simp
  with e have "takeWhile (\<lambda>c. c \<noteq> CHR ''.'') (rev e @ CHR ''.'' # rev q) = rev e"
    by (simp only:)
  then show "spec_extension p = Some e"
    by (simp add: spec_extension_def p)
next
  assume "spec_extension p = Some e"
  then have dot: "CHR ''.'' \<in> set p"
    and e: "e = rev (takeWhile (\<lambda>c. c \<noteq> CHR ''.'') (rev p))"
    by (auto simp: spec_extension_def split: if_splits)
  let ?d = "dropWhile (\<lambda>c. c \<noteq> CHR ''.'') (rev p)"
  from dot have ne: "?d \<noteq> []" by (simp add: dropWhile_eq_Nil_conv)
  then have "hd ?d = CHR ''.''"
    using hd_dropWhile [of "\<lambda>c. c \<noteq> CHR ''.''" "rev p"] by simp
  with ne obtain t where d: "?d = CHR ''.'' # t" by (cases ?d) auto
  have "rev p = rev e @ ?d" by (simp add: e)
  then have "rev p = rev e @ CHR ''.'' # t" by (simp add: d)
  then have "rev (rev p) = rev (rev e @ CHR ''.'' # t)" by (simp only:)
  then have "p = rev t @ ''.'' @ e" by simp
  then show "ends_with p (''.'' @ e)" by (auto simp: ends_with_iff)
qed

lemma isStaticAsset_spec:
  "isStaticAsset p \<longleftrightarrow>
     (case spec_extension p of Some e \<Rightarrow> e \<in> set STATIC_EXTENSIONS | None \<Rightarrow> False)"
proof -
  have nodot: "\<forall>e \<in> set STATIC_EXTENSIONS. CHR ''.'' \<notin> set e"
    by (simp add: STATIC_EXTENSIONS_def)
  have "isStaticAsset p \<longleftrightarrow> (\<exists>e \<in> set STATIC_EXTENSIONS. spec_extension p = Some e)"
    unfolding isStaticAsset_def list_ex_iff using nodot ends_with_dot_ext by blast
  then show ?thesis by (auto split: option.splits)
qed

text \<open>
  C5. For a request of the worker's own origin, the handler answers with the strategy
  that the specification gives to the class of the request, where the class is decided in
  the order API call (path begins with \<^verbatim>\<open>/api/\<close>), static asset (the extension of the path
  is one of the twelve of the list), navigation (mode \<^verbatim>\<open>navigate\<close>), other; the twelve
  extensions are the ones that the claim lists.
\<close>

theorem fetch_handler_classification:
  assumes "origin (req_url req) = self_origin"
  shows "fetch_handler self_origin net req w =
      respondWith (run_strategy (spec_strategy (spec_classify req)) net req w) \<and>
    STATIC_EXTENSIONS =
      [''css'', ''js'', ''png'', ''jpg'', ''jpeg'', ''gif'', ''svg'', ''ico'',
       ''woff'', ''woff2'', ''ttf'', ''eot'']"
  using assms
  by (cases "spec_classify req")
     (auto simp: fetch_handler_def spec_classify_def isStaticAsset_spec STATIC_EXTENSIONS_def
       split: if_splits)

theorem fetch_handler_classification_witness:
  "origin (req_url app_js_get) = example_origin \<and>
   spec_classify app_js_get = StaticAsset \<and>
   fetch_handler example_origin online app_js_get empty_world =
     respondWith (cacheFirst online app_js_get empty_world) \<and>
   origin (req_url api_orders_get) = example_origin \<and>
   spec_classify api_orders_get = ApiCall \<and>
   fetch_handler example_origin online api_orders_get empty_world =
     respondWith (networkFirst online api_orders_get empty_world) \<and>
   origin (req_url orders_page_get) = example_origin \<and>
   spec_classify orders_page_get = Navigation \<and>
   fetch_handler example_origin online orders_page_get empty_world =
     respondWith (networkFirstNavigation online orders_page_get empty_world)"
proof -
  have o: "origin (req_url app_js_get) = example_origin"
    "origin (req_url api_orders_get) = example_origin"
    "origin (req_url orders_page_get) = example_origin"
    by (simp_all add: app_js_get_def api_orders_get_def orders_page_get_def example_request_def)
  have c: "spec_classify app_js_get = StaticAsset" "spec_classify api_orders_get = ApiCall"
    "spec_classify orders_page_get = Navigation"
    by (simp_all add: spec_classify_def spec_extension_def starts_with_def
        STATIC_EXTENSIONS_def app_js_get_def api_orders_get_def orders_page_get_def
        example_request_def)
  show ?thesis
    using fetch_handler_classification
        [where req = app_js_get and self_origin = example_origin and net = online
           and w = empty_world]
      fetch_handler_classification
        [where req = api_orders_get and self_origin = example_origin and net = online
           and w = empty_world]
      fetch_handler_classification
        [where req = orders_page_get and self_origin = example_origin and net = online
           and w = empty_world]
      o c
    by simp
qed

text \<open>
  C7. For a request of another origin the handler does not call \<^verbatim>\<open>respondWith\<close>, so the
  browser sends the request to the network itself; the handler makes no call to the
  platform (no fetch, no read or write of a cache) and builds no response.
\<close>

theorem cross_origin_not_handled:
  assumes "origin (req_url req) \<noteq> self_origin"
  shows "fetch_handler self_origin net req w = (NotHandled, w)"
  using assms by (simp add: fetch_handler_def)

theorem cross_origin_not_handled_witness:
  "origin (req_url foreign_get) \<noteq> example_origin \<and>
   fetch_handler example_origin offline foreign_get old_world = (NotHandled, old_world)"
proof -
  have h: "origin (req_url foreign_get) \<noteq> example_origin"
    by (simp add: foreign_get_def example_origin_def)
  show ?thesis
    using cross_origin_not_handled
        [where req = foreign_get and self_origin = example_origin and net = offline
           and w = old_world] h
    by simp
qed

subsection \<open>The install handler\<close>

lemma settle_each_Cons:
  "settle_each (p # ps) w =
     (fst (p w) # fst (settle_each ps (snd (p w))), snd (settle_each ps (snd (p w))))"
  by (simp split: prod.splits)

lemma precache_put_accepted:
  "\<not> add_rejected r \<Longrightarrow> \<not> put_rejected (precache_request self_origin u) r"
  by (simp add: add_rejected_def put_rejected_def precache_request_def)

lemma precache_step_cases:
  "precache_step self_origin net u w =
     (Inr (),
      if precache_fails self_origin net u
      then emit (EvWarn (''[SW] Failed to pre-cache: '' @ u))
             (emit (EvFetch (precache_request self_origin u)) w)
      else emit (EvPut CACHE_NAME (precache_request self_origin u)
                   (the (net (precache_request self_origin u))))
             (emit (EvFetch (precache_request self_origin u)) w
                \<lparr>caches :=
                   storage_put CACHE_NAME (precache_request self_origin u)
                     (the (net (precache_request self_origin u))) (caches w)\<rparr>))"
  by (simp add: precache_step_def precache_fails_def catch_p_def cache_add_def fetch_def
      console_warn_def cache_put_def precache_put_accepted emit_def split: option.splits)

lemma precache_step_fulfils: "fst (precache_step self_origin net u w) = Inr ()"
  by (simp add: precache_step_cases)

lemma precache_step_trace:
  "filter is_fetch (trace (snd (precache_step self_origin net u w))) =
     filter is_fetch (trace w) @ [EvFetch (precache_request self_origin u)]"
  "warnings (trace (snd (precache_step self_origin net u w))) =
     warnings (trace w) @
     (if precache_fails self_origin net u then [''[SW] Failed to pre-cache: '' @ u] else [])"
  by (simp_all add: precache_step_cases trace_emit warnings_append)

lemma precache_step_names:
  "map fst (caches (snd (precache_step self_origin net u w))) = map fst (caches w)"
  by (simp add: precache_step_cases caches_emit names_storage_put)

lemma precache_request_key_inj:
  "request_key (precache_request self_origin u) = request_key (precache_request self_origin v)
     \<longleftrightarrow> u = v"
  by (auto simp: request_key_def precache_request_def)

text \<open>
  An entry that holds the network's answer for its request keeps it through a later step:
  a step writes under another key, or writes the same answer again.
\<close>

lemma precache_step_stored_keep:
  assumes "stored_in CACHE_NAME (caches w) (precache_request self_origin v) = Some r"
    and "net (precache_request self_origin v) = Some r"
  shows "stored_in CACHE_NAME (caches (snd (precache_step self_origin net u w)))
           (precache_request self_origin v) = Some r"
  using assms
  by (auto simp: precache_step_cases caches_emit stored_in_storage_put
      precache_request_key_inj)

lemma precache_step_stored_new:
  assumes "net (precache_request self_origin u) = Some r" and "\<not> add_rejected r"
    and "CACHE_NAME \<in> set (map fst (caches w))"
  shows "stored_in CACHE_NAME (caches (snd (precache_step self_origin net u w)))
           (precache_request self_origin u) = Some r"
  using assms
  by (simp add: precache_step_cases precache_fails_def caches_emit stored_in_storage_put)

lemma settle_precache:
  "fst (settle_each (map (precache_step self_origin net) us) w) = map (\<lambda>u. Inr ()) us \<and>
   filter is_fetch (trace (snd (settle_each (map (precache_step self_origin net) us) w))) =
     filter is_fetch (trace w) @ map (\<lambda>u. EvFetch (precache_request self_origin u)) us \<and>
   warnings (trace (snd (settle_each (map (precache_step self_origin net) us) w))) =
     warnings (trace w) @
     map (\<lambda>u. ''[SW] Failed to pre-cache: '' @ u) (filter (precache_fails self_origin net) us) \<and>
   map fst (caches (snd (settle_each (map (precache_step self_origin net) us) w))) =
     map fst (caches w)"
proof (induction us arbitrary: w)
  case Nil
  show ?case by simp
next
  case (Cons u us)
  show ?case
    using Cons.IH [of "snd (precache_step self_origin net u w)"]
    by (simp add: settle_each_Cons precache_step_fulfils precache_step_trace
        precache_step_names del: settle_each.simps)
qed

lemma settle_precache_keep:
  assumes "stored_in CACHE_NAME (caches w) (precache_request self_origin v) = Some r"
    and "net (precache_request self_origin v) = Some r"
  shows "stored_in CACHE_NAME
           (caches (snd (settle_each (map (precache_step self_origin net) us) w)))
           (precache_request self_origin v) = Some r"
  using assms
proof (induction us arbitrary: w)
  case Nil
  then show ?case by simp
next
  case (Cons u us)
  have "stored_in CACHE_NAME (caches (snd (precache_step self_origin net u w)))
           (precache_request self_origin v) = Some r"
    using Cons.prems by (rule precache_step_stored_keep)
  then have "stored_in CACHE_NAME
           (caches (snd (settle_each (map (precache_step self_origin net) us)
              (snd (precache_step self_origin net u w)))))
           (precache_request self_origin v) = Some r"
    using Cons.prems(2) by (rule Cons.IH)
  then show ?case
    by (simp add: settle_each_Cons del: settle_each.simps)
qed

lemma settle_precache_stored:
  assumes "v \<in> set us" and "net (precache_request self_origin v) = Some r"
    and "\<not> add_rejected r"
    and "CACHE_NAME \<in> set (map fst (caches w))"
  shows "stored_in CACHE_NAME
           (caches (snd (settle_each (map (precache_step self_origin net) us) w)))
           (precache_request self_origin v) = Some r"
  using assms
proof (induction us arbitrary: w)
  case Nil
  then show ?case by simp
next
  case (Cons u us)
  let ?w1 = "snd (precache_step self_origin net u w)"
  have names: "CACHE_NAME \<in> set (map fst (caches ?w1))"
    using Cons.prems(4) by (simp only: precache_step_names)
  have "stored_in CACHE_NAME
           (caches (snd (settle_each (map (precache_step self_origin net) us) ?w1)))
           (precache_request self_origin v) = Some r"
  proof (cases "v = u")
    case True
    have "stored_in CACHE_NAME (caches ?w1) (precache_request self_origin v) = Some r"
      unfolding True using Cons.prems(2,3,4) unfolding True by (rule precache_step_stored_new)
    then show ?thesis using Cons.prems(2) by (rule settle_precache_keep)
  next
    case False
    with Cons.prems(1) have "v \<in> set us" by simp
    then show ?thesis using Cons.prems(2,3) names by (rule Cons.IH)
  qed
  then show ?case
    by (simp add: settle_each_Cons del: settle_each.simps)
qed

lemma install_unfold:
  "install self_origin net w =
     (Inr (),
      emit EvSkipWaiting
        (snd (settle_each (map (precache_step self_origin net) PRECACHE_URLS)
               (caches_open CACHE_NAME w))))"
proof -
  have "(\<lambda>u. catch_p (cache_add self_origin net CACHE_NAME u)
              (\<lambda>err. console_warn (''[SW] Failed to pre-cache: '' @ u)))
        = precache_step self_origin net"
    by (simp add: precache_step_def fun_eq_iff)
  then show ?thesis
    unfolding install_def
    by (simp add: then_p_def caches_open_p_def Promise_allSettled_def
        skipWaiting_def case_prod_beta)
qed

lemma install_names:
  "map fst (caches (snd (install self_origin net w))) =
     map fst (storage_open CACHE_NAME (caches w))"
  using settle_precache [of self_origin net PRECACHE_URLS "caches_open CACHE_NAME w"]
  by (simp add: install_unfold caches_emit caches_open_def)

text \<open>
  C8. Whatever the network does, the promise of the install handler is fulfilled, and its
  last step is \<^verbatim>\<open>skipWaiting\<close>. Every URL of the precache list has been fetched, in the
  order of the list; the warnings logged are the ones of the entries that failed (the
  fetch threw, or the response was not \<^verbatim>\<open>ok\<close>, had status 206 or a \<^verbatim>\<open>Vary\<close> field \<^verbatim>\<open>*\<close>);
  every entry that did not fail is in the current cache.
\<close>

theorem install_best_effort:
  "\<exists>w'. install self_origin net w = (Inr (), w') \<and>
     filter is_fetch (trace w') =
       filter is_fetch (trace w) @
       map (\<lambda>u. EvFetch (precache_request self_origin u)) PRECACHE_URLS \<and>
     warnings (trace w') =
       warnings (trace w) @
       map (\<lambda>u. ''[SW] Failed to pre-cache: '' @ u)
         (filter (precache_fails self_origin net) PRECACHE_URLS) \<and>
     last (trace w') = EvSkipWaiting \<and>
     (\<forall>u \<in> set PRECACHE_URLS. \<forall>r.
        net (precache_request self_origin u) = Some r \<and> ok r \<and>
        status r \<noteq> 206 \<and> \<not> vary_star r \<longrightarrow>
        stored_in CACHE_NAME (caches w') (precache_request self_origin u) = Some r)"
proof -
  let ?w1 = "caches_open CACHE_NAME w"
  let ?w2 = "snd (settle_each (map (precache_step self_origin net) PRECACHE_URLS) ?w1)"
  have names: "CACHE_NAME \<in> set (map fst (caches ?w1))"
    using storage_open_mem [of CACHE_NAME "caches w"] by (simp add: caches_open_def caches_emit)
  have tr: "filter is_fetch (trace ?w1) = filter is_fetch (trace w)"
    "warnings (trace ?w1) = warnings (trace w)"
    by (simp_all add: caches_open_def trace_emit warnings_append)
  have stored: "\<forall>u \<in> set PRECACHE_URLS. \<forall>r.
        net (precache_request self_origin u) = Some r \<and> ok r \<and>
        status r \<noteq> 206 \<and> \<not> vary_star r \<longrightarrow>
        stored_in CACHE_NAME (caches (emit EvSkipWaiting ?w2))
          (precache_request self_origin u) = Some r"
    using settle_precache_stored [OF _ _ _ names]
    by (simp add: caches_emit add_rejected_def)
  show ?thesis
    unfolding install_unfold
    using settle_precache [of self_origin net PRECACHE_URLS ?w1] stored
    by (simp add: trace_emit warnings_append tr)
qed

theorem install_best_effort_witness:
  "fst (install example_origin icons_missing empty_world) = Inr () \<and>
   warnings (trace (snd (install example_origin icons_missing empty_world))) =
     [''[SW] Failed to pre-cache: /static/icons/icon-192.png'',
      ''[SW] Failed to pre-cache: /static/icons/icon-512.png''] \<and>
   ''/static/js/app.js'' \<in> set PRECACHE_URLS \<and>
   icons_missing (precache_request example_origin ''/static/js/app.js'') = Some response_200 \<and>
   ok response_200 \<and> status response_200 \<noteq> 206 \<and> \<not> vary_star response_200 \<and>
   stored_in CACHE_NAME (caches (snd (install example_origin icons_missing empty_world)))
     (precache_request example_origin ''/static/js/app.js'') = Some response_200"
proof -
  obtain w' where i: "install example_origin icons_missing empty_world = (Inr (), w')"
    and warn: "warnings (trace w') =
       warnings (trace empty_world) @
       map (\<lambda>u. ''[SW] Failed to pre-cache: '' @ u)
         (filter (precache_fails example_origin icons_missing) PRECACHE_URLS)"
    and stored: "\<forall>u \<in> set PRECACHE_URLS. \<forall>r.
        icons_missing (precache_request example_origin u) = Some r \<and> ok r \<and>
        status r \<noteq> 206 \<and> \<not> vary_star r \<longrightarrow>
        stored_in CACHE_NAME (caches w') (precache_request example_origin u) = Some r"
    using install_best_effort [of example_origin icons_missing empty_world] by blast
  have m: "''/static/js/app.js'' \<in> set PRECACHE_URLS"
    by (simp add: PRECACHE_URLS_def)
  have n: "icons_missing (precache_request example_origin ''/static/js/app.js'') =
      Some response_200"
    by (simp add: icons_missing_def precache_request_def starts_with_def)
  have a: "\<not> add_rejected response_200" "add_rejected response_404"
    by (simp add: add_rejected_def response_200_accepted)
       (simp add: add_rejected_def response_404_def ok_def)
  have f: "filter (precache_fails example_origin icons_missing) PRECACHE_URLS =
      [''/static/icons/icon-192.png'', ''/static/icons/icon-512.png'']"
    by (simp add: precache_fails_def icons_missing_def precache_request_def starts_with_def
        PRECACHE_URLS_def a)
  from stored m n response_200_accepted
  have "stored_in CACHE_NAME (caches w') (precache_request example_origin ''/static/js/app.js'')
      = Some response_200" by blast
  with i warn m n response_200_accepted f show ?thesis by (simp add: empty_world_def)
qed

subsection \<open>The activate handler\<close>

lemma delete_step_result:
  "fst (delete_step name w) = Inr (name \<in> set (map fst (caches w)))"
  "caches (snd (delete_step name w)) = storage_delete name (caches w)"
  by (simp_all add: delete_step_def then_p_def console_log_def caches_delete_p_def
      caches_delete_def caches_emit)

lemma settle_delete:
  "(\<forall>r \<in> set (fst (settle_each (map delete_step names) w)). \<exists>b. r = Inr b) \<and>
   caches (snd (settle_each (map delete_step names) w)) =
     filter (\<lambda>(n, c). n \<notin> set names) (caches w)"
proof (induction names arbitrary: w)
  case Nil
  show ?case by simp
next
  case (Cons name names)
  have "filter (\<lambda>(n, c). n \<notin> set names) (storage_delete name (caches w)) =
      filter (\<lambda>(n, c). n \<notin> set (name # names)) (caches w)"
    by (auto simp: storage_delete_def intro: filter_cong)
  then show ?case
    using Cons.IH [of "snd (delete_step name w)"]
    by (simp add: settle_each_Cons delete_step_result del: settle_each.simps)
qed

lemma first_rejection_fulfilled:
  "\<forall>r \<in> set rs. \<exists>b. r = Inr b \<Longrightarrow> \<exists>xs. first_rejection rs = Inr xs"
  by (induction rs rule: first_rejection.induct) auto

lemma activate_unfold:
  "\<exists>w'. activate w = (Inr (), w') \<and>
     caches w' = filter (\<lambda>(name, c). name = CACHE_NAME) (caches w)"
proof -
  let ?names = "filter (\<lambda>name. name \<noteq> CACHE_NAME) (map fst (caches w))"
  let ?s = "settle_each (map delete_step ?names) (emit EvKeys w)"
  have step: "(\<lambda>name. then_p (console_log (''[SW] Deleting old cache: '' @ name))
                 (\<lambda>logged. caches_delete_p name)) = delete_step"
    by (simp add: delete_step_def fun_eq_iff)
  obtain xs where xs: "first_rejection (fst ?s) = Inr xs"
    using settle_delete [of ?names "emit EvKeys w"] first_rejection_fulfilled by blast
  have "filter (\<lambda>(n, c). n \<notin> set ?names) (caches w) =
      filter (\<lambda>(name, c). name = CACHE_NAME) (caches w)"
    by (rule filter_cong) (force+)
  then have c: "caches (snd ?s) = filter (\<lambda>(name, c). name = CACHE_NAME) (caches w)"
    using settle_delete [of ?names "emit EvKeys w"] by (simp add: caches_emit)
  have "activate w = (Inr (), emit EvClientsClaim (snd ?s))"
    unfolding activate_def step
    using xs
    by (simp add: then_p_def caches_keys_p_def caches_keys_def Promise_all_def
        clients_claim_def case_prod_beta)
  with c show ?thesis by (simp add: caches_emit)
qed

lemma names_only_current:
  "distinct (map fst cs) \<Longrightarrow> name \<in> set (map fst cs) \<Longrightarrow>
     map fst (filter (\<lambda>(n, c). n = name) cs) = [name]"
  by (induction cs) (auto simp: filter_empty_conv intro: rev_image_eqI)

text \<open>
  C6. The promise of the activate handler is fulfilled, and the cache storage it leaves
  is the one before it without the caches of any other name than \<^verbatim>\<open>CACHE_NAME\<close>. When
  the names of the storage are distinct (as the platform keeps them) and the current
  cache is present, exactly that cache remains; this is the case when the install handler
  has run before.
\<close>

theorem activate_keeps_only_current:
  "\<exists>w'. activate w = (Inr (), w') \<and>
     caches w' = filter (\<lambda>(name, c). name = CACHE_NAME) (caches w) \<and>
     (\<forall>name. name \<noteq> CACHE_NAME \<longrightarrow> name \<notin> set (map fst (caches w'))) \<and>
     (distinct (map fst (caches w)) \<and> CACHE_NAME \<in> set (map fst (caches w)) \<longrightarrow>
        map fst (caches w') = [CACHE_NAME]) \<and>
     (distinct (map fst (caches w0)) \<and> install self_origin net w0 = (Inr (), w) \<longrightarrow>
        map fst (caches w') = [CACHE_NAME])"
proof -
  obtain w' where a: "activate w = (Inr (), w')"
    and c: "caches w' = filter (\<lambda>(name, c). name = CACHE_NAME) (caches w)"
    using activate_unfold by blast
  have others: "\<forall>name. name \<noteq> CACHE_NAME \<longrightarrow> name \<notin> set (map fst (caches w'))"
    by (auto simp: c)
  have one: "map fst (caches w') = [CACHE_NAME]"
    if "distinct (map fst (caches w))" "CACHE_NAME \<in> set (map fst (caches w))"
    using that unfolding c by (rule names_only_current)
  have two: "map fst (caches w') = [CACHE_NAME]"
    if d: "distinct (map fst (caches w0))" and i: "install self_origin net w0 = (Inr (), w)"
  proof -
    have n: "map fst (caches w) = map fst (storage_open CACHE_NAME (caches w0))"
      using install_names [of self_origin net w0] by (simp add: i)
    have "distinct (map fst (caches w))" "CACHE_NAME \<in> set (map fst (caches w))"
      using d by (auto simp: n names_storage_open)
    then show ?thesis by (rule one)
  qed
  show ?thesis
  proof (intro exI conjI)
    show "activate w = (Inr (), w')" by (rule a)
    show "caches w' = filter (\<lambda>(name, c). name = CACHE_NAME) (caches w)" by (rule c)
    show "\<forall>name. name \<noteq> CACHE_NAME \<longrightarrow> name \<notin> set (map fst (caches w'))"
      by (rule others)
    show "distinct (map fst (caches w)) \<and> CACHE_NAME \<in> set (map fst (caches w)) \<longrightarrow>
        map fst (caches w') = [CACHE_NAME]" using one by simp
    show "distinct (map fst (caches w0)) \<and> install self_origin net w0 = (Inr (), w) \<longrightarrow>
        map fst (caches w') = [CACHE_NAME]" using two by simp
  qed
qed

theorem activate_keeps_only_current_witness:
  "distinct (map fst (caches old_world)) \<and>
   map fst (caches old_world) = [''restaurant-manager-v0''] \<and>
   fst (install example_origin icons_missing old_world) = Inr () \<and>
   fst (activate (snd (install example_origin icons_missing old_world))) = Inr () \<and>
   map fst (caches (snd (activate (snd (install example_origin icons_missing old_world))))) =
     [CACHE_NAME]"
proof -
  let ?w = "snd (install example_origin icons_missing old_world)"
  have d: "distinct (map fst (caches old_world))"
    "map fst (caches old_world) = [''restaurant-manager-v0'']"
    by (simp_all add: old_world_def)
  have i: "install example_origin icons_missing old_world = (Inr (), ?w)"
    by (simp add: install_unfold)
  have "\<exists>w'. activate ?w = (Inr (), w') \<and>
      (distinct (map fst (caches old_world)) \<and>
       install example_origin icons_missing old_world = (Inr (), ?w) \<longrightarrow>
       map fst (caches w') = [CACHE_NAME])"
    using activate_keeps_only_current [of ?w old_world example_origin icons_missing]
    by (elim exE conjE) (rule exI, rule conjI, assumption, assumption)
  then obtain w' where a: "activate ?w = (Inr (), w')"
    and one: "distinct (map fst (caches old_world)) \<and>
       install example_origin icons_missing old_world = (Inr (), ?w) \<longrightarrow>
       map fst (caches w') = [CACHE_NAME]"
    by (elim exE conjE)
  from one d(1) i have "map fst (caches w') = [CACHE_NAME]" by (elim impE) (rule conjI)
  moreover have "fst (install example_origin icons_missing old_world) = Inr ()"
    by (simp add: install_unfold)
  ultimately show ?thesis using a d by simp
qed

subsection \<open>The navigation strategy against the network-first strategy\<close>

text \<open>
  For a GET request the navigation strategy is the network-first strategy, with the same
  calls to the platform, but for the response returned when the fetch throws and nothing
  is cached. For every request the two return the same response, but for that case, and
  leave the same entries in the caches.
\<close>

lemma networkFirstNavigation_GET:
  assumes "req_method req = ''GET''"
  shows "networkFirstNavigation net req w =
     (if net req = None \<and> storage_match (caches w) req = None
      then (OFFLINE_HTML_RESPONSE, snd (networkFirst net req w))
      else networkFirst net req w)"
  using assms
  by (simp add: networkFirstNavigation_def networkFirst_def platform_defs caches_emit
      split: option.splits)

lemma networkFirstNavigation_response:
  "fst (networkFirstNavigation net req w) =
     (if net req = None \<and> storage_match (caches w) req = None then OFFLINE_HTML_RESPONSE
      else fst (networkFirst net req w))"
  by (simp add: networkFirstNavigation_def networkFirst_def platform_defs caches_emit
      split: option.splits)

lemma networkFirstNavigation_entries:
  "stored_in name (caches (snd (networkFirstNavigation net req w))) q =
   stored_in name (caches (snd (networkFirst net req w))) q"
  by (simp add: networkFirstNavigation_def networkFirst_def platform_defs put_rejected_def
      caches_emit stored_in_storage_open split: option.splits)

lemma OFFLINE_HTML_RESPONSE_fields:
  "status OFFLINE_HTML_RESPONSE = 503 \<and>
   map_of (headers OFFLINE_HTML_RESPONSE) ''Content-Type'' = Some ''text/html'' \<and>
   body OFFLINE_HTML_RESPONSE = OFFLINE_HTML"
  by (simp add: OFFLINE_HTML_RESPONSE_def)


section \<open>Properties of the API helper\<close>

lemma get_prop_not_null: "data \<noteq> JNull \<Longrightarrow> get_prop data k = Inr (own_prop data k)"
  by (cases data) simp_all

lemma error_message_not_null:
  "data \<noteq> JNull \<Longrightarrow>
     error_message data =
       Inr (if truthy (own_prop data ''error'') then own_prop data ''error''
            else if truthy (own_prop data ''message'') then own_prop data ''message''
            else Some (JStr ''Something went wrong.''))"
  by (simp add: error_message_def get_prop_not_null)

lemma error_message_null: "error_message JNull = Inl NullPropertyRead"
  by (simp add: error_message_def)

lemma toast_and_throw_fst:
  "fst (toast_and_throw message thrown) =
     (if convertible message then Inl thrown else Inl NotConvertible)"
  by (simp add: toast_and_throw_def showToast_def)

lemma convertible_string: "convertible (Some (JStr s))"
  by (simp add: convertible_def)

text \<open>
  C10, as stated, fails on a response that is not \<^verbatim>\<open>ok\<close> and whose body is the JSON
  text of the empty object: the body parses as JSON, the helper rejects, and the message
  of the error is the helper's own \<^verbatim>\<open>Something went wrong.\<close>, since the object has neither
  an \<^verbatim>\<open>error\<close> nor a \<^verbatim>\<open>message\<close>.
\<close>

theorem api_message_not_from_server:
  "server_answers 500 ''{}'' ''/api/orders''
     \<lparr>opt_method = ''GET'',
      opt_headers = [(''Content-Type'', ''application/json''), (''Accept'', ''application/json'')],
      opt_body = None\<rparr> =
     Inr \<lparr>status = 500, statusText = [], headers = [], body = ''{}''\<rparr> \<and>
   \<not> ok \<lparr>status = 500, statusText = [], headers = [], body = ''{}''\<rparr> \<and>
   example_parse ''{}'' = Some (JObj []) \<and>
   get_prop (JObj []) ''error'' = Inr None \<and>
   get_prop (JObj []) ''message'' = Inr None \<and>
   fst (api (server_answers 500 ''{}'') example_stringify example_parse
          ''/api/orders'' ''GET'' None) =
     Inl (Error (Some (JStr ''Something went wrong.'')))"
  by (simp add: api_def server_answers_def example_parse_def ok_def error_message_def
      toast_and_throw_fst convertible_string)

text \<open>
  C10, amended. For a fetch that returns a response: the helper returns normally only
  when the response is \<^verbatim>\<open>ok\<close>, and rejects whenever it is not. When the response is not
  \<^verbatim>\<open>ok\<close>: if the body is not JSON, the error is the HTTP-status error; if the body is the
  JSON \<^verbatim>\<open>null\<close>, it is the \<^verbatim>\<open>TypeError\<close> of reading a property of \<^verbatim>\<open>null\<close>; if the body is
  another JSON value, the message is its \<^verbatim>\<open>error\<close> when that is truthy, else its \<^verbatim>\<open>message\<close>
  when that is truthy, else the helper's own \<^verbatim>\<open>Something went wrong.\<close>, and the error is
  an \<^verbatim>\<open>Error\<close> with this message when the message has a string form and the \<^verbatim>\<open>TypeError\<close>
  of the conversion when it has none. When the response is \<^verbatim>\<open>ok\<close>, the helper returns the
  empty object for a body that is not JSON and the parsed value otherwise.
\<close>

theorem api_outcomes:
  assumes "page_fetch u
      \<lparr>opt_method = m,
       opt_headers = [(''Content-Type'', ''application/json''), (''Accept'', ''application/json'')],
       opt_body = (case b of None \<Rightarrow> None
                   | Some v \<Rightarrow> if v = JNull then None else Some (stringify v))\<rparr> = Inr resp"
  shows "(\<forall>v. fst (api page_fetch stringify parse_json u m b) = Inr v \<longrightarrow> ok resp) \<and>
    (\<not> ok resp \<longrightarrow>
        (\<exists>thrown. fst (api page_fetch stringify parse_json u m b) = Inl thrown)) \<and>
    (\<not> ok resp \<and> parse_json (body resp) = None \<longrightarrow>
        fst (api page_fetch stringify parse_json u m b) =
          Inl (Error (Some (JStr (''HTTP '' @ show_nat (status resp) @
                                  '': Non-JSON response''))))) \<and>
    (\<not> ok resp \<and> parse_json (body resp) = Some JNull \<longrightarrow>
        fst (api page_fetch stringify parse_json u m b) = Inl NullPropertyRead) \<and>
    (\<forall>data. \<not> ok resp \<and> parse_json (body resp) = Some data \<and> data \<noteq> JNull \<and>
        truthy (own_prop data ''error'') \<and> convertible (own_prop data ''error'') \<longrightarrow>
        fst (api page_fetch stringify parse_json u m b) =
          Inl (Error (own_prop data ''error''))) \<and>
    (\<forall>data. \<not> ok resp \<and> parse_json (body resp) = Some data \<and> data \<noteq> JNull \<and>
        \<not> truthy (own_prop data ''error'') \<and>
        truthy (own_prop data ''message'') \<and> convertible (own_prop data ''message'') \<longrightarrow>
        fst (api page_fetch stringify parse_json u m b) =
          Inl (Error (own_prop data ''message''))) \<and>
    (\<forall>data. \<not> ok resp \<and> parse_json (body resp) = Some data \<and> data \<noteq> JNull \<and>
        \<not> truthy (own_prop data ''error'') \<and> \<not> truthy (own_prop data ''message'') \<longrightarrow>
        fst (api page_fetch stringify parse_json u m b) =
          Inl (Error (Some (JStr ''Something went wrong.'')))) \<and>
    (\<forall>data. \<not> ok resp \<and> parse_json (body resp) = Some data \<and> data \<noteq> JNull \<and>
        (truthy (own_prop data ''error'') \<and> \<not> convertible (own_prop data ''error'') \<or>
         \<not> truthy (own_prop data ''error'') \<and> truthy (own_prop data ''message'') \<and>
         \<not> convertible (own_prop data ''message'')) \<longrightarrow>
        fst (api page_fetch stringify parse_json u m b) = Inl NotConvertible) \<and>
    (ok resp \<and> parse_json (body resp) = None \<longrightarrow>
        fst (api page_fetch stringify parse_json u m b) = Inr (JObj [])) \<and>
    (\<forall>data. ok resp \<and> parse_json (body resp) = Some data \<longrightarrow>
        fst (api page_fetch stringify parse_json u m b) = Inr data)"
proof -
  let ?r = "fst (api page_fetch stringify parse_json u m b)"
  have none: "?r = (if ok resp then Inr (JObj [])
                    else Inl (Error (Some (JStr (''HTTP '' @ show_nat (status resp) @
                                                 '': Non-JSON response'')))))"
    if "parse_json (body resp) = None"
    using assms that by (simp add: api_def toast_and_throw_fst convertible_string)
  have null: "?r = (if ok resp then Inr JNull else Inl NullPropertyRead)"
    if "parse_json (body resp) = Some JNull"
    using assms that by (simp add: api_def error_message_null)
  have some: "?r =
      (if ok resp then Inr data
       else if truthy (own_prop data ''error'')
         then (if convertible (own_prop data ''error'')
               then Inl (Error (own_prop data ''error'')) else Inl NotConvertible)
       else if truthy (own_prop data ''message'')
         then (if convertible (own_prop data ''message'')
               then Inl (Error (own_prop data ''message'')) else Inl NotConvertible)
       else Inl (Error (Some (JStr ''Something went wrong.''))))"
    if "parse_json (body resp) = Some data" "data \<noteq> JNull" for data
    using assms that
    by (simp add: api_def error_message_not_null toast_and_throw_fst convertible_string)
  have rejects: "\<exists>thrown. ?r = Inl thrown" if "\<not> ok resp"
  proof (cases "parse_json (body resp)")
    case None
    with that show ?thesis by (simp add: none)
  next
    case (Some data)
    show ?thesis
    proof (cases "data = JNull")
      case True
      with Some that show ?thesis by (simp add: null)
    next
      case False
      with Some that show ?thesis by (simp add: some)
    qed
  qed
  have returns: "ok resp" if "?r = Inr v" for v
  proof (rule ccontr)
    assume "\<not> ok resp"
    then obtain thrown where "?r = Inl thrown" using rejects by blast
    with that show False by simp
  qed
  have okjson: "?r = Inr data" if "ok resp" "parse_json (body resp) = Some data" for data
    using that null [of] some [of data] by (cases "data = JNull") simp_all
  show ?thesis
  proof (intro conjI allI impI)
    fix v assume "?r = Inr v"
    then show "ok resp" by (rule returns)
  next
    assume "\<not> ok resp"
    then show "\<exists>thrown. ?r = Inl thrown" by (rule rejects)
  next
    assume "\<not> ok resp \<and> parse_json (body resp) = None"
    then show "?r = Inl (Error (Some (JStr (''HTTP '' @ show_nat (status resp) @
        '': Non-JSON response''))))" by (simp add: none)
  next
    assume "\<not> ok resp \<and> parse_json (body resp) = Some JNull"
    then show "?r = Inl NullPropertyRead" by (simp add: null)
  next
    fix data
    assume "\<not> ok resp \<and> parse_json (body resp) = Some data \<and> data \<noteq> JNull \<and>
        truthy (own_prop data ''error'') \<and> convertible (own_prop data ''error'')"
    then show "?r = Inl (Error (own_prop data ''error''))" by (simp add: some)
  next
    fix data
    assume "\<not> ok resp \<and> parse_json (body resp) = Some data \<and> data \<noteq> JNull \<and>
        \<not> truthy (own_prop data ''error'') \<and>
        truthy (own_prop data ''message'') \<and> convertible (own_prop data ''message'')"
    then show "?r = Inl (Error (own_prop data ''message''))" by (simp add: some)
  next
    fix data
    assume "\<not> ok resp \<and> parse_json (body resp) = Some data \<and> data \<noteq> JNull \<and>
        \<not> truthy (own_prop data ''error'') \<and> \<not> truthy (own_prop data ''message'')"
    then show "?r = Inl (Error (Some (JStr ''Something went wrong.'')))" by (simp add: some)
  next
    fix data
    assume "\<not> ok resp \<and> parse_json (body resp) = Some data \<and> data \<noteq> JNull \<and>
        (truthy (own_prop data ''error'') \<and> \<not> convertible (own_prop data ''error'') \<or>
         \<not> truthy (own_prop data ''error'') \<and> truthy (own_prop data ''message'') \<and>
         \<not> convertible (own_prop data ''message''))"
    then show "?r = Inl NotConvertible" by (auto simp: some)
  next
    assume "ok resp \<and> parse_json (body resp) = None"
    then show "?r = Inr (JObj [])" by (simp add: none)
  next
    fix data
    assume "ok resp \<and> parse_json (body resp) = Some data"
    then show "?r = Inr data" using okjson by blast
  qed
qed

theorem api_outcomes_witness:
  "fst (api (server_answers 409 (''{'' @ [CHR 0x22] @ ''error'' @ [CHR 0x22] @ '':'' @
              [CHR 0x22] @ ''Table is occupied'' @ [CHR 0x22] @ ''}''))
          example_stringify example_parse ''/api/orders'' ''POST'' (Some (JObj []))) =
     Inl (Error (Some (JStr ''Table is occupied''))) \<and>
   fst (api (server_answers 502 ''<html>Bad Gateway</html>'')
          example_stringify example_parse ''/api/orders'' ''GET'' None) =
     Inl (Error (Some (JStr ''HTTP 502: Non-JSON response''))) \<and>
   fst (api (server_answers 500 ''null'')
          example_stringify example_parse ''/api/orders'' ''GET'' None) =
     Inl NullPropertyRead \<and>
   fst (api (server_answers 204 [])
          example_stringify example_parse ''/api/orders/7'' ''DELETE'' None) =
     Inr (JObj [])"
proof (intro conjI)
  let ?conflict = "''{'' @ [CHR 0x22] @ ''error'' @ [CHR 0x22] @ '':'' @
      [CHR 0x22] @ ''Table is occupied'' @ [CHR 0x22] @ ''}''"
  let ?r409 = "\<lparr>status = 409, statusText = [], headers = [], body = ?conflict\<rparr>"
  let ?data = "JObj [(''error'', JStr ''Table is occupied'')]"
  have f: "server_answers 409 ?conflict ''/api/orders''
      \<lparr>opt_method = ''POST'',
       opt_headers = [(''Content-Type'', ''application/json''), (''Accept'', ''application/json'')],
       opt_body = (case Some (JObj []) of None \<Rightarrow> None
                   | Some v \<Rightarrow> if v = JNull then None else Some (example_stringify v))\<rparr> =
      Inr ?r409"
    by (simp add: server_answers_def)
  have h: "\<not> ok ?r409 \<and> example_parse (body ?r409) = Some ?data \<and> ?data \<noteq> JNull \<and>
      truthy (own_prop ?data ''error'') \<and> convertible (own_prop ?data ''error'')"
    by (simp add: ok_def example_parse_def convertible_def)
  have "\<forall>data. \<not> ok ?r409 \<and> example_parse (body ?r409) = Some data \<and> data \<noteq> JNull \<and>
        truthy (own_prop data ''error'') \<and> convertible (own_prop data ''error'') \<longrightarrow>
        fst (api (server_answers 409 ?conflict) example_stringify example_parse
               ''/api/orders'' ''POST'' (Some (JObj []))) = Inl (Error (own_prop data ''error''))"
    using api_outcomes
        [where page_fetch = "server_answers 409 ?conflict" and u = "''/api/orders''"
           and m = "''POST''" and b = "Some (JObj [])" and stringify = example_stringify
           and resp = ?r409 and parse_json = example_parse, OF f]
    by (elim conjE)
  then have "\<not> ok ?r409 \<and> example_parse (body ?r409) = Some ?data \<and> ?data \<noteq> JNull \<and>
        truthy (own_prop ?data ''error'') \<and> convertible (own_prop ?data ''error'') \<longrightarrow>
        fst (api (server_answers 409 ?conflict) example_stringify example_parse
               ''/api/orders'' ''POST'' (Some (JObj []))) =
          Inl (Error (own_prop ?data ''error''))"
    by (elim allE)
  then have "fst (api (server_answers 409 ?conflict) example_stringify example_parse
      ''/api/orders'' ''POST'' (Some (JObj []))) = Inl (Error (own_prop ?data ''error''))"
    using h by (rule mp)
  then show "fst (api (server_answers 409 ?conflict) example_stringify example_parse
      ''/api/orders'' ''POST'' (Some (JObj []))) = Inl (Error (Some (JStr ''Table is occupied'')))"
    by simp
next
  let ?r502 = "\<lparr>status = 502, statusText = [], headers = [],
      body = ''<html>Bad Gateway</html>''\<rparr>"
  have f: "server_answers 502 ''<html>Bad Gateway</html>'' ''/api/orders''
      \<lparr>opt_method = ''GET'',
       opt_headers = [(''Content-Type'', ''application/json''), (''Accept'', ''application/json'')],
       opt_body = (case None of None \<Rightarrow> None
                   | Some v \<Rightarrow> if v = JNull then None else Some (example_stringify v))\<rparr> =
      Inr ?r502"
    by (simp add: server_answers_def)
  have s: "show_nat 502 = ''502''" by code_simp
  have h: "\<not> ok ?r502 \<and> example_parse (body ?r502) = None"
    by (simp add: ok_def example_parse_def)
  have "\<not> ok ?r502 \<and> example_parse (body ?r502) = None \<longrightarrow>
        fst (api (server_answers 502 ''<html>Bad Gateway</html>'') example_stringify
               example_parse ''/api/orders'' ''GET'' None) =
          Inl (Error (Some (JStr (''HTTP '' @ show_nat (status ?r502) @
                                  '': Non-JSON response''))))"
    using api_outcomes
        [where page_fetch = "server_answers 502 ''<html>Bad Gateway</html>''"
           and u = "''/api/orders''" and m = "''GET''" and b = None
           and stringify = example_stringify and resp = ?r502 and parse_json = example_parse,
         OF f]
    by (elim conjE)
  then have "fst (api (server_answers 502 ''<html>Bad Gateway</html>'') example_stringify
               example_parse ''/api/orders'' ''GET'' None) =
          Inl (Error (Some (JStr (''HTTP '' @ show_nat (status ?r502) @
                                  '': Non-JSON response''))))"
    using h by (rule mp)
  then show "fst (api (server_answers 502 ''<html>Bad Gateway</html>'') example_stringify
      example_parse ''/api/orders'' ''GET'' None) =
      Inl (Error (Some (JStr ''HTTP 502: Non-JSON response'')))"
    by (simp add: s)
next
  let ?r500 = "\<lparr>status = 500, statusText = [], headers = [], body = ''null''\<rparr>"
  have f: "server_answers 500 ''null'' ''/api/orders''
      \<lparr>opt_method = ''GET'',
       opt_headers = [(''Content-Type'', ''application/json''), (''Accept'', ''application/json'')],
       opt_body = (case None of None \<Rightarrow> None
                   | Some v \<Rightarrow> if v = JNull then None else Some (example_stringify v))\<rparr> =
      Inr ?r500"
    by (simp add: server_answers_def)
  have h: "\<not> ok ?r500 \<and> example_parse (body ?r500) = Some JNull"
    by (simp add: ok_def example_parse_def)
  have "\<not> ok ?r500 \<and> example_parse (body ?r500) = Some JNull \<longrightarrow>
        fst (api (server_answers 500 ''null'') example_stringify example_parse
               ''/api/orders'' ''GET'' None) = Inl NullPropertyRead"
    using api_outcomes
        [where page_fetch = "server_answers 500 ''null''" and u = "''/api/orders''"
           and m = "''GET''" and b = None and stringify = example_stringify
           and resp = ?r500 and parse_json = example_parse, OF f]
    by (elim conjE)
  then show "fst (api (server_answers 500 ''null'') example_stringify example_parse
      ''/api/orders'' ''GET'' None) = Inl NullPropertyRead"
    using h by (rule mp)
next
  let ?r204 = "\<lparr>status = 204, statusText = [], headers = [], body = []\<rparr>"
  have f: "server_answers 204 [] ''/api/orders/7''
      \<lparr>opt_method = ''DELETE'',
       opt_headers = [(''Content-Type'', ''application/json''), (''Accept'', ''application/json'')],
       opt_body = (case None of None \<Rightarrow> None
                   | Some v \<Rightarrow> if v = JNull then None else Some (example_stringify v))\<rparr> =
      Inr ?r204"
    by (simp add: server_answers_def)
  have h: "ok ?r204 \<and> example_parse (body ?r204) = None"
    by (simp add: ok_def example_parse_def)
  have "ok ?r204 \<and> example_parse (body ?r204) = None \<longrightarrow>
        fst (api (server_answers 204 []) example_stringify example_parse
               ''/api/orders/7'' ''DELETE'' None) = Inr (JObj [])"
    using api_outcomes
        [where page_fetch = "server_answers 204 []" and u = "''/api/orders/7''"
           and m = "''DELETE''" and b = None and stringify = example_stringify
           and resp = ?r204 and parse_json = example_parse, OF f]
    by (elim conjE)
  then show "fst (api (server_answers 204 []) example_stringify example_parse
      ''/api/orders/7'' ''DELETE'' None) = Inr (JObj [])"
    using h by (rule mp)
qed

end
